theory Spec2Isabelle
  imports Complex_Main
begin

section \<open>Undefined behaviour as a value\<close>

text \<open>
  The C++ sources index local arrays, dereference pointers and delete objects. Each of
  these is undefined when the index or the pointer is bad. In the embedding such a step
  returns \<open>Inl\<close> of the reason and every later step is skipped; a step that is fine
  returns \<open>Inr\<close> of its result.
\<close>

datatype error = OutOfBounds | NullDereference | InvalidPointer

definition seq :: "error + 'a \<Rightarrow> ('a \<Rightarrow> error + 'b) \<Rightarrow> error + 'b" where
  "seq m f = (case m of Inl e \<Rightarrow> Inl e | Inr x \<Rightarrow> f x)"

subsection \<open>Fixed-size local arrays\<close>

text \<open>
  A C array \<open>T a[n]\<close> is a list of length \<open>n\<close>. Reading or writing \<open>a[i]\<close> is defined
  for \<open>i < n\<close> only.
\<close>

definition array_read :: "'a list \<Rightarrow> nat \<Rightarrow> error + 'a" where
  "array_read a i = (if i < length a then Inr (a ! i) else Inl OutOfBounds)"

definition array_write :: "'a list \<Rightarrow> nat \<Rightarrow> 'a \<Rightarrow> error + 'a list" where
  "array_write a i v = (if i < length a then Inr (a[i := v]) else Inl OutOfBounds)"

text \<open>A run of assignments \<open>a[i] = v;\<close> in program order.\<close>

fun array_assign :: "'a list \<Rightarrow> (nat \<times> 'a) list \<Rightarrow> error + 'a list" where
  "array_assign a [] = Inr a"
| "array_assign a ((i, v) # ws) = seq (array_write a i v) (\<lambda>a'. array_assign a' ws)"

subsection \<open>Objects created with new\<close>

text \<open>
  An object created with \<open>new\<close> lives at an address. The heap of objects of one class is
  a list of cells, the address is the index of the cell; \<open>new\<close> appends a cell,
  \<open>delete\<close> empties it. An address is never handed out twice, so a pointer kept after
  \<open>delete\<close> is recognised as dangling.
\<close>

type_synonym addr = nat

type_synonym 'a heap = "'a option list"

definition live :: "'a heap \<Rightarrow> addr \<Rightarrow> bool" where
  "live h a = (a < length h \<and> h ! a \<noteq> None)"

definition new_obj :: "'a \<Rightarrow> 'a heap \<Rightarrow> addr \<times> 'a heap" where
  "new_obj v h = (length h, h @ [Some v])"

definition delete_obj :: "addr \<Rightarrow> 'a heap \<Rightarrow> error + 'a heap" where
  "delete_obj a h = (if live h a then Inr (h[a := None]) else Inl InvalidPointer)"

definition deref :: "'a heap \<Rightarrow> addr \<Rightarrow> error + 'a" where
  "deref h a =
     (if a < length h
      then (case h ! a of None \<Rightarrow> Inl InvalidPointer | Some v \<Rightarrow> Inr v)
      else Inl InvalidPointer)"

section \<open>External collaborators\<close>

text \<open>
  \<open>TLorentzVector(x, y, z, t)\<close> of ROOT. The sources only build, store and copy
  four-vectors; no arithmetic is done on the components, which are reals here.
\<close>

record TLorentzVector =
  P4x :: real
  P4y :: real
  P4z :: real
  P4t :: real

text \<open>An entry of the particle-property table (\<open>TParticlePDG\<close> of ROOT).\<close>

record TParticlePDG =
  Mass :: real
  Charge :: real
  GetName :: string

text \<open>
  The particle table \<open>PDGLibrary::Instance()\<close>, the functions of namespace \<open>pdg\<close>
  (\<open>PDG/PDGUtils.h\<close>) and the constant \<open>kNucleonMass\<close> (\<open>Conventions/Constants.h\<close>)
  are used by the sources but are not among them. They are parameters of the model:
  every definition below that needs them takes a \<open>PDG\<close> record. \<open>Find\<close> returns
  \<open>None\<close> where the C++ \<open>Find\<close> returns a null pointer.
\<close>

record PDG =
  Find :: "int \<Rightarrow> TParticlePDG option"
  IsIon :: "int \<Rightarrow> bool"
  IonPdgCode :: "int \<Rightarrow> int \<Rightarrow> int"
  IonPdgCodeToZ :: "int \<Rightarrow> int"
  IonPdgCodeToA :: "int \<Rightarrow> int"
  IsQuark :: "int \<Rightarrow> bool"
  IsAntiQuark :: "int \<Rightarrow> bool"
  IsNeutrino :: "int \<Rightarrow> bool"
  IsAntiNeutrino :: "int \<Rightarrow> bool"
  kNucleonMass :: real

text \<open>
  Modelled from the spec: \<open>kPdgProton\<close> and \<open>kPdgNeutron\<close> of \<open>PDG/PDGCodes.h\<close>, which
  is not among the sources. The spec speaks of the proton code and the neutron code; the
  values are those of the PDG Monte Carlo numbering scheme.
\<close>

definition kPdgProton :: int where
  "kPdgProton = 2212"

definition kPdgNeutron :: int where
  "kPdgNeutron = 2112"

text \<open>
  Modelled from the spec: \<open>kPdgPiPlus\<close>, \<open>kPdgPi0\<close> and \<open>kPdgPiMinus\<close> of
  \<open>PDG/PDGCodes.h\<close>, the codes of the three pion species that the exclusive tag counts,
  again in the PDG numbering scheme.
\<close>

definition kPdgPiPlus :: int where
  "kPdgPiPlus = 211"

definition kPdgPi0 :: int where
  "kPdgPi0 = 111"

definition kPdgPiMinus :: int where
  "kPdgPiMinus = - 211"

text \<open>
  Modelled from the spec: \<open>pdg::IsProton\<close>, \<open>pdg::IsNeutron\<close> and
  \<open>pdg::IsNeutronOrProton\<close> of \<open>PDG/PDGUtils.h\<close>, which is not among the sources. They
  test a code for being the proton code, the neutron code, or one of the two.
\<close>

definition pdg_IsProton :: "int \<Rightarrow> bool" where
  "pdg_IsProton pdgc = (pdgc = kPdgProton)"

definition pdg_IsNeutron :: "int \<Rightarrow> bool" where
  "pdg_IsNeutron pdgc = (pdgc = kPdgNeutron)"

definition pdg_IsNeutronOrProton :: "int \<Rightarrow> bool" where
  "pdg_IsNeutronOrProton pdgc = (pdg_IsNeutron pdgc \<or> pdg_IsProton pdgc)"

section \<open>Target\<close>

text \<open>
  The data members of \<open>genie::Target\<close>. The C++ \<open>int\<close> members are integers; the
  sources do no arithmetic on them beyond \<open>fA - fZ\<close>, which stays far from the limits
  of \<open>int\<close> for any pair a table of isotopes holds. \<open>fStruckNucP4\<close> is a pointer to a
  \<open>TLorentzVector\<close> that the Target owns: \<open>None\<close> is the null pointer, \<open>Some a\<close> the
  address \<open>a\<close> in the heap of four-vectors.
\<close>

record Target =
  fZ :: int
  fA :: int
  fTgtPDG :: int
  fStruckNucPDG :: int
  fStruckQuarkPDG :: int
  fStruckSeaQuark :: bool
  fStruckNucP4 :: "addr option"

subsection \<open>Observers\<close>

definition Target_Z :: "Target \<Rightarrow> int" where
  "Target_Z t = fZ t"

definition Target_N :: "Target \<Rightarrow> int" where
  "Target_N t = fA t - fZ t"

definition Target_A :: "Target \<Rightarrow> int" where
  "Target_A t = fA t"

definition PDGCode :: "Target \<Rightarrow> int" where
  "PDGCode t = fTgtPDG t"

definition IsFreeNucleon :: "Target \<Rightarrow> bool" where
  "IsFreeNucleon t = (fA t = 1 \<and> (fZ t = 0 \<or> fZ t = 1))"

definition IsProton :: "Target \<Rightarrow> bool" where
  "IsProton t = (fA t = 1 \<and> fZ t = 1)"

definition IsNeutron :: "Target \<Rightarrow> bool" where
  "IsNeutron t = (fA t = 1 \<and> fZ t = 0)"

definition IsNucleus :: "Target \<Rightarrow> bool" where
  "IsNucleus t = (fA t > 1)"

definition StruckNucleonIsSet :: "Target \<Rightarrow> bool" where
  "StruckNucleonIsSet t = pdg_IsNeutronOrProton (fStruckNucPDG t)"

definition StruckQuarkIsFromSea :: "Target \<Rightarrow> bool" where
  "StruckQuarkIsFromSea t = fStruckSeaQuark t"

definition StruckNucleonPDGCode :: "Target \<Rightarrow> int" where
  "StruckNucleonPDGCode t = fStruckNucPDG t"

definition StruckQuarkPDGCode :: "Target \<Rightarrow> int" where
  "StruckQuarkPDGCode t = fStruckQuarkPDG t"

definition StruckNucleonP4 :: "Target \<Rightarrow> addr option" where
  "StruckNucleonP4 t = fStruckNucP4 t"

text \<open>
  What a caller reads through the pointer that \<open>StruckNucleonP4\<close> returns: \<open>Inr None\<close>
  for the null pointer, \<open>Inr (Some v)\<close> for a four-vector \<open>v\<close>, an error for a
  dangling pointer.
\<close>

definition StruckNucleonP4_value :: "TLorentzVector heap \<Rightarrow> Target \<Rightarrow> error + TLorentzVector option" where
  "StruckNucleonP4_value h t =
     (case StruckNucleonP4 t of
        None \<Rightarrow> Inr None
      | Some a \<Rightarrow> seq (deref h a) (\<lambda>v. Inr (Some v)))"

definition IsValidNucleus :: "PDG \<Rightarrow> Target \<Rightarrow> bool" where
  "IsValidNucleus pdg t =
     (if IsFreeNucleon t then True
      else (case Find pdg (IonPdgCode pdg (fA t) (fZ t)) of
              Some p \<Rightarrow> True
            | None \<Rightarrow> False))"

subsection \<open>Private helpers\<close>

definition Init :: "PDG \<Rightarrow> TLorentzVector heap \<Rightarrow> Target \<times> TLorentzVector heap" where
  "Init pdg h =
     (case new_obj \<lparr>P4x = 0, P4y = 0, P4z = 0, P4t = kNucleonMass pdg\<rparr> h of
        (p, h') \<Rightarrow>
          (\<lparr>fZ = 0, fA = 0, fTgtPDG = 0, fStruckNucPDG = 0, fStruckQuarkPDG = 0,
            fStruckSeaQuark = False, fStruckNucP4 = Some p\<rparr>, h'))"

text \<open>Returns the flag \<open>valid\<close> and the Target after the reset.\<close>

definition ForceStruckNucleonValidity :: "Target \<Rightarrow> bool \<times> Target" where
  "ForceStruckNucleonValidity t =
     (let valid = (pdg_IsProton (fStruckNucPDG t) \<or> pdg_IsNeutron (fStruckNucPDG t))
      in (valid, if \<not> valid then t\<lparr>fStruckNucPDG := 0\<rparr> else t))"

definition ForceNucleusValidity :: "PDG \<Rightarrow> Target \<Rightarrow> Target" where
  "ForceNucleusValidity pdg t =
     (if \<not> IsValidNucleus pdg t then t\<lparr>fZ := 0, fA := 0\<rparr> else t)"

subsection \<open>Mutators\<close>

definition SetStruckNucleonP4 ::
  "TLorentzVector \<Rightarrow> Target \<Rightarrow> TLorentzVector heap \<Rightarrow> error + Target \<times> TLorentzVector heap" where
  "SetStruckNucleonP4 p4 t h =
     seq (case fStruckNucP4 t of
            Some a \<Rightarrow> delete_obj a h
          | None \<Rightarrow> Inr h)
       (\<lambda>h1. case new_obj p4 h1 of (p, h2) \<Rightarrow> Inr (t\<lparr>fStruckNucP4 := Some p\<rparr>, h2))"

definition SetStruckNucleonPDGCode ::
  "PDG \<Rightarrow> int \<Rightarrow> Target \<Rightarrow> TLorentzVector heap \<Rightarrow> error + Target \<times> TLorentzVector heap" where
  "SetStruckNucleonPDGCode pdg nucl_pdgc t h =
     (case ForceStruckNucleonValidity (t\<lparr>fStruckNucPDG := nucl_pdgc\<rparr>) of
        (is_valid, t1) \<Rightarrow>
          if is_valid
          then (case Find pdg nucl_pdgc of
                  None \<Rightarrow> Inl NullDereference
                | Some particle \<Rightarrow>
                    SetStruckNucleonP4 \<lparr>P4x = 0, P4y = 0, P4z = 0, P4t = Mass particle\<rparr> t1 h)
          else Inr (t1, h))"

definition SetStruckQuarkPDGCode :: "PDG \<Rightarrow> int \<Rightarrow> Target \<Rightarrow> Target" where
  "SetStruckQuarkPDGCode pdg pdgc t =
     (if IsQuark pdg pdgc \<or> IsAntiQuark pdg pdgc then t\<lparr>fStruckQuarkPDG := pdgc\<rparr> else t)"

definition SetStruckSeaQuark :: "bool \<Rightarrow> Target \<Rightarrow> Target" where
  "SetStruckSeaQuark tf t = t\<lparr>fStruckSeaQuark := tf\<rparr>"

definition SetZA ::
  "PDG \<Rightarrow> int \<Rightarrow> int \<Rightarrow> Target \<Rightarrow> TLorentzVector heap \<Rightarrow> error + Target \<times> TLorentzVector heap" where
  "SetZA pdg Z A t h =
     (let t1 = ForceNucleusValidity pdg (t\<lparr>fZ := Z, fA := A\<rparr>)
      in if IsFreeNucleon t1
         then (if IsProton t1
               then SetStruckNucleonPDGCode pdg kPdgProton t1 h
               else SetStruckNucleonPDGCode pdg kPdgNeutron t1 h)
         else Inr (t1, h))"

subsection \<open>Constructors\<close>

definition Target_default :: "PDG \<Rightarrow> TLorentzVector heap \<Rightarrow> Target \<times> TLorentzVector heap" where
  "Target_default pdg h = Init pdg h"

definition Target_pdgc ::
  "PDG \<Rightarrow> int \<Rightarrow> TLorentzVector heap \<Rightarrow> error + Target \<times> TLorentzVector heap" where
  "Target_pdgc pdg pdgc h =
     (case Init pdg h of
        (t0, h0) \<Rightarrow>
          (let t1 = t0\<lparr>fTgtPDG := pdgc\<rparr>
           in if IsIon pdg pdgc
              then SetZA pdg (IonPdgCodeToZ pdg pdgc) (IonPdgCodeToA pdg pdgc) t1 h0
              else Inr (t1, h0)))"

definition Target_ZA ::
  "PDG \<Rightarrow> int \<Rightarrow> int \<Rightarrow> TLorentzVector heap \<Rightarrow> error + Target \<times> TLorentzVector heap" where
  "Target_ZA pdg Z A h =
     (case Init pdg h of
        (t0, h0) \<Rightarrow> SetZA pdg Z A (t0\<lparr>fTgtPDG := IonPdgCode pdg A Z\<rparr>) h0)"

definition Target_ZA_nuc ::
  "PDG \<Rightarrow> int \<Rightarrow> int \<Rightarrow> int \<Rightarrow> TLorentzVector heap \<Rightarrow> error + Target \<times> TLorentzVector heap" where
  "Target_ZA_nuc pdg Z A struck_nucleon_pdgc h =
     (case Init pdg h of
        (t0, h0) \<Rightarrow>
          SetStruckNucleonPDGCode pdg struck_nucleon_pdgc
            (ForceNucleusValidity pdg (t0\<lparr>fZ := Z, fA := A, fTgtPDG := IonPdgCode pdg A Z\<rparr>)) h0)"

text \<open>
  \<open>Target::Copy\<close>, which is all the copy constructor calls. \<open>this\<close> is initialised
  first, so the result does not depend on what \<open>this\<close> held before. The four-vector that
  \<open>Init\<close> has just created is not deleted when the pointer is overwritten; it stays in
  the heap.
\<close>

definition Copy ::
  "PDG \<Rightarrow> Target \<Rightarrow> TLorentzVector heap \<Rightarrow> error + Target \<times> TLorentzVector heap" where
  "Copy pdg tgt h =
     (case Init pdg h of
        (t0, h0) \<Rightarrow>
          (let t1 = t0\<lparr>fTgtPDG := fTgtPDG tgt\<rparr>
           in if IsIon pdg (fTgtPDG t1)
              then
                (let t2 = t1\<lparr>fZ := fZ tgt, fA := fA tgt,
                             fStruckNucPDG := fStruckNucPDG tgt,
                             fStruckQuarkPDG := fStruckQuarkPDG tgt,
                             fStruckSeaQuark := fStruckSeaQuark tgt\<rparr>
                 in seq (case fStruckNucP4 tgt of
                           Some q \<Rightarrow>
                             seq (deref h0 q)
                               (\<lambda>v. case new_obj v h0 of
                                       (p, h1) \<Rightarrow> Inr (t2\<lparr>fStruckNucP4 := Some p\<rparr>, h1))
                         | None \<Rightarrow> Inr (t2, h0))
                      (\<lambda>(t3, h1).
                         Inr (snd (ForceStruckNucleonValidity (ForceNucleusValidity pdg t3)), h1)))
              else Inr (t1, h0)))"

definition Target_copy ::
  "PDG \<Rightarrow> Target \<Rightarrow> TLorentzVector heap \<Rightarrow> error + Target \<times> TLorentzVector heap" where
  "Target_copy pdg tgt h = Copy pdg tgt h"

subsection \<open>Well-formed Targets\<close>

text \<open>
  The four-vector pointer of a Target is null or points to a live four-vector. Every
  constructor establishes this and every mutator keeps it.
\<close>

definition P4_ok :: "TLorentzVector heap \<Rightarrow> Target \<Rightarrow> bool" where
  "P4_ok h t = (case fStruckNucP4 t of None \<Rightarrow> True | Some a \<Rightarrow> live h a)"

text \<open>
  The state in which the constructors and mutators leave a Target: \<open>(Z, A)\<close> is a
  valid nucleus or \<open>(0, 0)\<close>, the struck-nucleon code is the proton code, the neutron
  code or 0, and the four-vector pointer points to a live four-vector.
\<close>

definition Target_inv :: "PDG \<Rightarrow> TLorentzVector heap \<Rightarrow> Target \<Rightarrow> bool" where
  "Target_inv pdg h t =
     ((IsValidNucleus pdg t \<or> (fZ t = 0 \<and> fA t = 0))
      \<and> (pdg_IsProton (fStruckNucPDG t) \<or> pdg_IsNeutron (fStruckNucPDG t) \<or> fStruckNucPDG t = 0)
      \<and> (case fStruckNucP4 t of None \<Rightarrow> False | Some a \<Rightarrow> live h a))"

text \<open>
  What a caller learns about the struck nucleon after a sequence of calls: the error if
  one occurred, else the struck-nucleon code and the four-vector behind the pointer.
\<close>

definition struck_nucleon_view ::
  "error + Target \<times> TLorentzVector heap \<Rightarrow> error + int \<times> TLorentzVector option" where
  "struck_nucleon_view r =
     seq r (\<lambda>(t, h). seq (StruckNucleonP4_value h t) (\<lambda>v. Inr (StruckNucleonPDGCode t, v)))"

section \<open>Interaction\<close>

text \<open>
  Modelled from the spec: the headers of \<open>ProcessInfo\<close>, \<open>XclsTag\<close>, \<open>InitialState\<close> and
  \<open>Interaction\<close> are not among the sources. The spec gives
  \<open>Interaction = (InitialState, ProcessInfo, ExclusiveTag)\<close>, an InitialState as the probe
  identity plus a Target, with a probe four-momentum that the selector injects, a
  ProcessInfo as scattering category plus current type, and an ExclusiveTag as the counts
  \<open>{nProton, nNeutron}\<close> and \<open>{nPiPlus, nPi0, nPiMinus}\<close>. Only the enumerators that the
  sources name are listed.
\<close>

datatype ScatteringType_t = kScNull | kScResonant

datatype InteractionType_t = kIntNull | kIntWeakCC | kIntWeakNC

record ProcessInfo =
  fScatteringType :: ScatteringType_t
  fInteractionType :: InteractionType_t

record XclsTag =
  fNProtons :: int
  fNNeutrons :: int
  fNPiPlus :: int
  fNPi0 :: int
  fNPiMinus :: int

record InitialState =
  fProbePdg :: int
  fProbeP4 :: TLorentzVector
  fTgt :: Target

record Interaction =
  fInitialState :: InitialState
  fProcInfo :: ProcessInfo
  fExclusiveTag :: XclsTag

text \<open>
  The generators and the selector create Interactions with \<open>new\<close> and pass pointers to
  them. The store holds the heap of Interactions next to the heap of four-vectors.
\<close>

record store =
  p4s :: "TLorentzVector heap"
  interactions :: "Interaction heap"

definition assign_obj :: "addr \<Rightarrow> 'a \<Rightarrow> 'a heap \<Rightarrow> error + 'a heap" where
  "assign_obj a v h = (if live h a then Inr (h[a := Some v]) else Inl InvalidPointer)"

text \<open>
  Modelled from the spec: copying an InitialState (\<open>InitialState.cxx\<close> is not among the
  sources). The spec has the Interaction deep-copied. The probe code and the probe
  four-momentum are values; the Target is an object with a copy constructor of its own,
  \<open>Target::Target(const Target &)\<close> of the Target source, and is copied by it.
\<close>

definition InitialState_copy ::
  "PDG \<Rightarrow> InitialState \<Rightarrow> TLorentzVector heap \<Rightarrow> error + InitialState \<times> TLorentzVector heap" where
  "InitialState_copy pdg init_state h =
     seq (Target_copy pdg (fTgt init_state) h)
       (\<lambda>(tgt, h1). Inr (init_state\<lparr>fTgt := tgt\<rparr>, h1))"

text \<open>
  Modelled from the spec: \<open>new Interaction(init_state, proc_info)\<close>
  (\<open>Interaction.cxx\<close> is not among the sources): "copy the InitialState, set the
  ProcessInfo". The exclusive tag starts with all counts 0.
\<close>

definition new_Interaction ::
  "PDG \<Rightarrow> InitialState \<Rightarrow> ProcessInfo \<Rightarrow> store \<Rightarrow> error + addr \<times> store" where
  "new_Interaction pdg init_state proc_info s =
     seq (InitialState_copy pdg init_state (p4s s))
       (\<lambda>(init, h).
          case new_obj \<lparr>fInitialState = init, fProcInfo = proc_info,
                        fExclusiveTag = \<lparr>fNProtons = 0, fNNeutrons = 0, fNPiPlus = 0,
                                         fNPi0 = 0, fNPiMinus = 0\<rparr>\<rparr>
                 (interactions s) of
            (a, is) \<Rightarrow> Inr (a, \<lparr>p4s = h, interactions = is\<rparr>))"

text \<open>
  Modelled from the spec: \<open>new Interaction(*interaction)\<close>, the copy constructor
  (\<open>Interaction.cxx\<close> is not among the sources): a new Interaction with a copy of the
  InitialState and the same process info and exclusive tag.
\<close>

definition new_Interaction_copy :: "PDG \<Rightarrow> addr \<Rightarrow> store \<Rightarrow> error + addr \<times> store" where
  "new_Interaction_copy pdg interaction s =
     seq (deref (interactions s) interaction)
       (\<lambda>x. seq (InitialState_copy pdg (fInitialState x) (p4s s))
          (\<lambda>(init, h).
             case new_obj (x\<lparr>fInitialState := init\<rparr>) (interactions s) of
               (a, is) \<Rightarrow> Inr (a, \<lparr>p4s = h, interactions = is\<rparr>)))"

text \<open>
  Modelled from the spec: \<open>interaction->InitStatePtr()->TgtPtr()->SetHitNucPdg(pdgc)\<close>.
  The generator calls the setter of the struck-nucleon code under the name
  \<open>SetHitNucPdg\<close>; the Target source has it as \<open>SetStruckNucleonPDGCode\<close>.
\<close>

definition SetHitNucPdg :: "PDG \<Rightarrow> int \<Rightarrow> addr \<Rightarrow> store \<Rightarrow> error + store" where
  "SetHitNucPdg pdg pdgc interaction s =
     seq (deref (interactions s) interaction)
       (\<lambda>x. seq (SetStruckNucleonPDGCode pdg pdgc (fTgt (fInitialState x)) (p4s s))
          (\<lambda>(t, h).
             seq (assign_obj interaction (x\<lparr>fInitialState := (fInitialState x)\<lparr>fTgt := t\<rparr>\<rparr>)
                    (interactions s))
               (\<lambda>is. Inr \<lparr>p4s = h, interactions = is\<rparr>)))"

text \<open>Modelled from the spec: \<open>interaction->SetExclTag(tag)\<close>.\<close>

definition SetExclTag :: "XclsTag \<Rightarrow> addr \<Rightarrow> store \<Rightarrow> error + store" where
  "SetExclTag tag interaction s =
     seq (deref (interactions s) interaction)
       (\<lambda>x. seq (assign_obj interaction (x\<lparr>fExclusiveTag := tag\<rparr>) (interactions s))
          (\<lambda>is. Inr (s\<lparr>interactions := is\<rparr>)))"

text \<open>Modelled from the spec: \<open>interaction->InitStatePtr()->SetProbeP4(p4)\<close>.\<close>

definition SetProbeP4 :: "TLorentzVector \<Rightarrow> addr \<Rightarrow> store \<Rightarrow> error + store" where
  "SetProbeP4 p4 interaction s =
     seq (deref (interactions s) interaction)
       (\<lambda>x. seq (assign_obj interaction (x\<lparr>fInitialState := (fInitialState x)\<lparr>fProbeP4 := p4\<rparr>\<rparr>)
                    (interactions s))
          (\<lambda>is. Inr (s\<lparr>interactions := is\<rparr>)))"

section \<open>The channel table\<close>

text \<open>
  Modelled from the spec: \<open>SppChannel_t\<close> and the functions \<open>SppChannel::InitStateNucleon\<close>,
  \<open>FinStateNucleon\<close> and \<open>FinStatePion\<close> are not among the sources. The spec calls the
  table a closed set of named constants, each mapping to (initial-state nucleon,
  final-state nucleon, final-state meson). The enumerators are the ones
  \<open>RSPPInteractionListGenerator.cxx\<close> names, plus \<open>kSppNull\<close>; the mapping is the one its
  comment in lines 47-68 lists (\<open>v p -> l- p pi+\<close> and so on), which the digits of each
  name repeat as the counts [p, n, pi+, pi0, pi-].
\<close>

datatype SppChannel_t =
    kSppNull
  | kSpp_vp_cc_10100
  | kSpp_vn_cc_10010
  | kSpp_vn_cc_01100
  | kSpp_vp_nc_10010
  | kSpp_vp_nc_01100
  | kSpp_vn_nc_01010
  | kSpp_vn_nc_10001
  | kSpp_vbn_cc_01001
  | kSpp_vbp_cc_01010
  | kSpp_vbp_cc_10001
  | kSpp_vbp_nc_10010
  | kSpp_vbp_nc_01100
  | kSpp_vbn_nc_01010
  | kSpp_vbn_nc_10001

text \<open>
  Modelled from the spec: \<open>SppChannel::InitStateNucleon\<close>, the initial-state nucleon
  that a channel requires; 0 for \<open>kSppNull\<close>.
\<close>

fun InitStateNucleon :: "SppChannel_t \<Rightarrow> int" where
  "InitStateNucleon kSpp_vp_cc_10100 = kPdgProton"
| "InitStateNucleon kSpp_vn_cc_10010 = kPdgNeutron"
| "InitStateNucleon kSpp_vn_cc_01100 = kPdgNeutron"
| "InitStateNucleon kSpp_vp_nc_10010 = kPdgProton"
| "InitStateNucleon kSpp_vp_nc_01100 = kPdgProton"
| "InitStateNucleon kSpp_vn_nc_01010 = kPdgNeutron"
| "InitStateNucleon kSpp_vn_nc_10001 = kPdgNeutron"
| "InitStateNucleon kSpp_vbn_cc_01001 = kPdgNeutron"
| "InitStateNucleon kSpp_vbp_cc_01010 = kPdgProton"
| "InitStateNucleon kSpp_vbp_cc_10001 = kPdgProton"
| "InitStateNucleon kSpp_vbp_nc_10010 = kPdgProton"
| "InitStateNucleon kSpp_vbp_nc_01100 = kPdgProton"
| "InitStateNucleon kSpp_vbn_nc_01010 = kPdgNeutron"
| "InitStateNucleon kSpp_vbn_nc_10001 = kPdgNeutron"
| "InitStateNucleon kSppNull = 0"

text \<open>
  Modelled from the spec: \<open>SppChannel::FinStateNucleon\<close>, the final-state nucleon of a
  channel; 0 for \<open>kSppNull\<close>.
\<close>

fun FinStateNucleon :: "SppChannel_t \<Rightarrow> int" where
  "FinStateNucleon kSpp_vp_cc_10100 = kPdgProton"
| "FinStateNucleon kSpp_vn_cc_10010 = kPdgProton"
| "FinStateNucleon kSpp_vn_cc_01100 = kPdgNeutron"
| "FinStateNucleon kSpp_vp_nc_10010 = kPdgProton"
| "FinStateNucleon kSpp_vp_nc_01100 = kPdgNeutron"
| "FinStateNucleon kSpp_vn_nc_01010 = kPdgNeutron"
| "FinStateNucleon kSpp_vn_nc_10001 = kPdgProton"
| "FinStateNucleon kSpp_vbn_cc_01001 = kPdgNeutron"
| "FinStateNucleon kSpp_vbp_cc_01010 = kPdgNeutron"
| "FinStateNucleon kSpp_vbp_cc_10001 = kPdgProton"
| "FinStateNucleon kSpp_vbp_nc_10010 = kPdgProton"
| "FinStateNucleon kSpp_vbp_nc_01100 = kPdgNeutron"
| "FinStateNucleon kSpp_vbn_nc_01010 = kPdgNeutron"
| "FinStateNucleon kSpp_vbn_nc_10001 = kPdgProton"
| "FinStateNucleon kSppNull = 0"

text \<open>
  Modelled from the spec: \<open>SppChannel::FinStatePion\<close>, the final-state pion of a
  channel; 0 for \<open>kSppNull\<close>.
\<close>

fun FinStatePion :: "SppChannel_t \<Rightarrow> int" where
  "FinStatePion kSpp_vp_cc_10100 = kPdgPiPlus"
| "FinStatePion kSpp_vn_cc_10010 = kPdgPi0"
| "FinStatePion kSpp_vn_cc_01100 = kPdgPiPlus"
| "FinStatePion kSpp_vp_nc_10010 = kPdgPi0"
| "FinStatePion kSpp_vp_nc_01100 = kPdgPiPlus"
| "FinStatePion kSpp_vn_nc_01010 = kPdgPi0"
| "FinStatePion kSpp_vn_nc_10001 = kPdgPiMinus"
| "FinStatePion kSpp_vbn_cc_01001 = kPdgPiMinus"
| "FinStatePion kSpp_vbp_cc_01010 = kPdgPi0"
| "FinStatePion kSpp_vbp_cc_10001 = kPdgPiMinus"
| "FinStatePion kSpp_vbp_nc_10010 = kPdgPi0"
| "FinStatePion kSpp_vbp_nc_01100 = kPdgPiPlus"
| "FinStatePion kSpp_vbn_nc_01010 = kPdgPi0"
| "FinStatePion kSpp_vbn_nc_10001 = kPdgPiMinus"
| "FinStatePion kSppNull = 0"

section \<open>RSPPInteractionListGenerator\<close>

text \<open>The configuration that \<open>LoadConfigData\<close> reads: the flags \<open>is-CC\<close> and \<open>is-NC\<close>.\<close>

record RSPPInteractionListGenerator =
  fIsCC :: bool
  fIsNC :: bool

definition n_nucc_channels :: nat where
  "n_nucc_channels = 3"

definition n_nunc_channels :: nat where
  "n_nunc_channels = 4"

text \<open>
  \<open>AddFinalStateInfo\<close>. The two error messages for a nucleon or pion code outside the
  expected ones are log output only; the counts then stay 0.
\<close>

definition AddFinalStateInfo :: "addr \<Rightarrow> SppChannel_t \<Rightarrow> store \<Rightarrow> error + store" where
  "AddFinalStateInfo interaction sppchan s =
     (let nucpdg = FinStateNucleon sppchan;
          pipdg = FinStatePion sppchan;
          nproton = (if nucpdg = kPdgProton then 1 else 0);
          nneutron = (if nucpdg = kPdgProton then 0 else if nucpdg = kPdgNeutron then 1 else 0);
          npiplus = (if pipdg = kPdgPiPlus then 1 else 0);
          npi0 = (if pipdg = kPdgPiPlus then 0 else if pipdg = kPdgPi0 then 1 else 0);
          npiminus = (if pipdg = kPdgPiPlus then 0 else if pipdg = kPdgPi0 then 0
                      else if pipdg = kPdgPiMinus then 1 else 0)
      in SetExclTag \<lparr>fNProtons = nproton, fNNeutrons = nneutron, fNPiPlus = npiplus,
                      fNPi0 = npi0, fNPiMinus = npiminus\<rparr> interaction s)"

text \<open>
  The body of either \<open>for\<close> loop for one channel: the test on the struck nucleon and,
  when it passes, the new Interaction appended to \<open>intlist\<close>. \<open>inttype\<close> is
  \<open>kIntWeakCC\<close> in the first loop and \<open>kIntWeakNC\<close> in the second.
\<close>

definition channel_step ::
  "PDG \<Rightarrow> InteractionType_t \<Rightarrow> InitialState \<Rightarrow> bool \<Rightarrow> bool \<Rightarrow> SppChannel_t
     \<Rightarrow> addr list \<times> store \<Rightarrow> error + addr list \<times> store" where
  "channel_step pdg inttype init_state hasP hasN chan st =
     (case st of
        (intlist, s) \<Rightarrow>
          (let struck_nucleon = InitStateNucleon chan
           in if (struck_nucleon = kPdgProton \<and> hasP) \<or> (struck_nucleon = kPdgNeutron \<and> hasN)
              then
                seq (new_Interaction pdg init_state
                       \<lparr>fScatteringType = kScResonant, fInteractionType = inttype\<rparr> s)
                  (\<lambda>(interaction, s1).
                     seq (SetHitNucPdg pdg struck_nucleon interaction s1)
                       (\<lambda>s2. seq (AddFinalStateInfo interaction chan s2)
                          (\<lambda>s3. Inr (intlist @ [interaction], s3))))
              else Inr (intlist, s)))"

text \<open>
  \<open>for(int i=0; i<n; i++)\<close> over a channel array: the loop runs over the indices
  \<open>[0..<n]\<close> in order and reads \<open>channels[i]\<close> in each round.
\<close>

fun channel_loop ::
  "PDG \<Rightarrow> InteractionType_t \<Rightarrow> InitialState \<Rightarrow> bool \<Rightarrow> bool \<Rightarrow> SppChannel_t list
     \<Rightarrow> nat list \<Rightarrow> addr list \<times> store \<Rightarrow> error + addr list \<times> store" where
  "channel_loop pdg inttype init_state hasP hasN channels [] st = Inr st"
| "channel_loop pdg inttype init_state hasP hasN channels (i # is) st =
     seq (array_read channels i)
       (\<lambda>chan. seq (channel_step pdg inttype init_state hasP hasN chan st)
          (\<lambda>st'. channel_loop pdg inttype init_state hasP hasN channels is st'))"

text \<open>
  \<open>CreateInteractionList\<close> from the point where the two local arrays exist. The result is
  the returned pointer, \<open>None\<close> for \<open>return 0\<close>, and the store.
\<close>

definition RSPP_CreateInteractionList_body ::
  "PDG \<Rightarrow> RSPPInteractionListGenerator \<Rightarrow> InitialState \<Rightarrow> SppChannel_t list \<Rightarrow> SppChannel_t list
     \<Rightarrow> store \<Rightarrow> error + addr list option \<times> store" where
  "RSPP_CreateInteractionList_body pdg this init_state nucc_channels nunc_channels s =
     (let nupdg = fProbePdg init_state
      in seq (if IsNeutrino pdg nupdg
              then
                seq (array_assign nucc_channels
                       [(0, kSpp_vp_cc_10100), (1, kSpp_vn_cc_10010), (2, kSpp_vn_cc_01100)])
                  (\<lambda>nucc. seq (array_assign nunc_channels
                                  [(0, kSpp_vp_nc_10010), (1, kSpp_vp_nc_01100),
                                   (2, kSpp_vn_nc_01010), (3, kSpp_vn_nc_10001)])
                     (\<lambda>nunc. Inr (Some (nucc, nunc))))
              else if IsAntiNeutrino pdg nupdg
              then
                seq (array_assign nucc_channels
                       [(0, kSpp_vbn_cc_01001), (1, kSpp_vbp_cc_01010), (2, kSpp_vbp_cc_10001)])
                  (\<lambda>nucc. seq (array_assign nunc_channels
                                  [(0, kSpp_vbp_nc_10010), (1, kSpp_vbp_nc_01100),
                                   (2, kSpp_vbn_nc_01010), (3, kSpp_vbn_nc_10001)])
                     (\<lambda>nunc. Inr (Some (nucc, nunc))))
              else Inr None)
           (\<lambda>filled.
              case filled of
                None \<Rightarrow> Inr (None, s)
              | Some (nucc, nunc) \<Rightarrow>
                  (let inp_target = fTgt init_state;
                       hasP = (Target_Z inp_target > 0);
                       hasN = (Target_N inp_target > 0)
                   in seq (if fIsCC this
                           then channel_loop pdg kIntWeakCC init_state hasP hasN nucc
                                  [0..<n_nucc_channels] ([], s)
                           else if fIsNC this
                           then channel_loop pdg kIntWeakNC init_state hasP hasN nunc
                                  [0..<n_nunc_channels] ([], s)
                           else Inr ([], s))
                        (\<lambda>(intlist, s').
                           if length intlist = 0 then Inr (None, s')
                           else Inr (Some intlist, s')))))"

text \<open>
  \<open>CreateInteractionList\<close> with its declarations
  \<open>SppChannel_t nucc_channels[n_nucc_channels] = {kSppNull};\<close> and
  \<open>SppChannel_t nunc_channels[n_nucc_channels] = {kSppNull};\<close>: both arrays have
  \<open>n_nucc_channels\<close> elements. The elements after the first are value-initialised; they
  are taken to be \<open>kSppNull\<close> as well, and every element inside the bounds is assigned
  before it is read.
\<close>

definition RSPP_CreateInteractionList ::
  "PDG \<Rightarrow> RSPPInteractionListGenerator \<Rightarrow> InitialState \<Rightarrow> store
     \<Rightarrow> error + addr list option \<times> store" where
  "RSPP_CreateInteractionList pdg this init_state s =
     RSPP_CreateInteractionList_body pdg this init_state
       (replicate n_nucc_channels kSppNull) (replicate n_nucc_channels kSppNull) s"

section \<open>DfrcInteractionListGenerator\<close>

definition Dfrc_CreateInteractionList ::
  "InitialState \<Rightarrow> store \<Rightarrow> error + addr list option \<times> store" where
  "Dfrc_CreateInteractionList init_state s =
     (let intlist = []
      in Inr (Some intlist, s))"

section \<open>ToyInteractionSelector\<close>

text \<open>
  Modelled from the spec: \<open>InteractionGeneratorMap\<close> and \<open>EventRecord\<close> are not among
  the sources. The spec calls the first the handle of the interaction list, with
  \<open>size()\<close> the number of its elements, and has the second own one attached Interaction,
  its summary.
\<close>

record InteractionGeneratorMap =
  fInteractionList :: "addr list"

text \<open>
  Modelled from the spec: \<open>igmap->size()\<close>, the number of elements of the list that the
  handle carries.
\<close>

definition igmap_size :: "InteractionGeneratorMap \<Rightarrow> nat" where
  "igmap_size igmap = length (fInteractionList igmap)"

text \<open>Modelled from the spec: \<open>igmap->GetInteractionList()\<close>.\<close>

definition GetInteractionList :: "InteractionGeneratorMap \<Rightarrow> addr list" where
  "GetInteractionList igmap = fInteractionList igmap"

text \<open>
  Modelled from the spec: an EventRecord, of which only the attached summary matters
  here. \<open>new EventRecord\<close> has none yet; \<open>AttachSummary\<close> sets it.
\<close>

record EventRecord =
  fSummary :: "addr option"

definition new_EventRecord :: EventRecord where
  "new_EventRecord = \<lparr>fSummary = None\<rparr>"

definition AttachSummary :: "addr \<Rightarrow> EventRecord \<Rightarrow> EventRecord" where
  "AttachSummary interaction evrec = evrec\<lparr>fSummary := Some interaction\<rparr>"

text \<open>
  \<open>SelectInteraction\<close>. The random-number service is a parameter: \<open>Integer n\<close> is what
  \<open>rnd->RndISel().Integer(n)\<close> returns in this call. \<open>igmap\<close> is the pointer argument,
  \<open>None\<close> when null; the result is the returned pointer, \<open>None\<close> for \<open>return 0\<close>, and the
  store. \<open>ilst[iint]\<close> indexes a vector without a bounds check.
\<close>

definition SelectInteraction ::
  "PDG \<Rightarrow> (nat \<Rightarrow> nat) \<Rightarrow> InteractionGeneratorMap option \<Rightarrow> TLorentzVector \<Rightarrow> store
     \<Rightarrow> error + EventRecord option \<times> store" where
  "SelectInteraction pdg Integer igmap p4 s =
     (case igmap of
        None \<Rightarrow> Inr (None, s)
      | Some m \<Rightarrow>
          if igmap_size m \<le> 0 then Inr (None, s)
          else
            (let ilst = GetInteractionList m;
                 nint = length ilst;
                 iint = Integer nint
             in seq (array_read ilst iint)
                  (\<lambda>interaction.
                     seq (new_Interaction_copy pdg interaction s)
                       (\<lambda>(selected_interaction, s1).
                          seq (SetProbeP4 p4 selected_interaction s1)
                            (\<lambda>s2. Inr (Some (AttachSummary selected_interaction new_EventRecord),
                                        s2))))))"

text \<open>
  A pointer to an Interaction is usable when it points to a live Interaction whose
  Target has a four-vector pointer that is null or live.
\<close>

definition Interaction_ok :: "store \<Rightarrow> addr \<Rightarrow> bool" where
  "Interaction_ok s a =
     (case deref (interactions s) a of
        Inl e \<Rightarrow> False
      | Inr x \<Rightarrow> P4_ok (p4s s) (fTgt (fInitialState x)))"


section \<open>The enumeration as the spec words it\<close>

text \<open>
  The definitions of this section do not come from the source. They write down what the
  spec says the single-pion-production generator returns, to be compared with the
  source: the fixed channel table per probe sign and current type, the admission test
  on the target's nucleon content, and the signature that identifies a candidate
  (process info, struck nucleon, exclusive tag).
\<close>

definition spec_channel_table :: "bool \<Rightarrow> InteractionType_t \<Rightarrow> SppChannel_t list" where
  "spec_channel_table neutrino inttype =
     (if neutrino
      then (case inttype of
              kIntWeakCC \<Rightarrow> [kSpp_vp_cc_10100, kSpp_vn_cc_10010, kSpp_vn_cc_01100]
            | kIntWeakNC \<Rightarrow> [kSpp_vp_nc_10010, kSpp_vp_nc_01100, kSpp_vn_nc_01010, kSpp_vn_nc_10001]
            | kIntNull \<Rightarrow> [])
      else (case inttype of
              kIntWeakCC \<Rightarrow> [kSpp_vbn_cc_01001, kSpp_vbp_cc_01010, kSpp_vbp_cc_10001]
            | kIntWeakNC \<Rightarrow> [kSpp_vbp_nc_10010, kSpp_vbp_nc_01100, kSpp_vbn_nc_01010, kSpp_vbn_nc_10001]
            | kIntNull \<Rightarrow> []))"

definition spec_admitted :: "Target \<Rightarrow> SppChannel_t \<Rightarrow> bool" where
  "spec_admitted tgt chan =
     ((InitStateNucleon chan = kPdgProton \<and> Target_Z tgt > 0)
      \<or> (InitStateNucleon chan = kPdgNeutron \<and> Target_N tgt > 0))"

definition spec_signature :: "InteractionType_t \<Rightarrow> SppChannel_t \<Rightarrow> ProcessInfo \<times> int \<times> XclsTag" where
  "spec_signature inttype chan =
     (\<lparr>fScatteringType = kScResonant, fInteractionType = inttype\<rparr>,
      InitStateNucleon chan,
      \<lparr>fNProtons = (if FinStateNucleon chan = kPdgProton then 1 else 0),
       fNNeutrons = (if FinStateNucleon chan = kPdgNeutron then 1 else 0),
       fNPiPlus = (if FinStatePion chan = kPdgPiPlus then 1 else 0),
       fNPi0 = (if FinStatePion chan = kPdgPi0 then 1 else 0),
       fNPiMinus = (if FinStatePion chan = kPdgPiMinus then 1 else 0)\<rparr>)"

text \<open>The current type that the two flags select: CC wins when both are set.\<close>

definition configured_mode :: "RSPPInteractionListGenerator \<Rightarrow> InteractionType_t" where
  "configured_mode this = (if fIsCC this then kIntWeakCC else if fIsNC this then kIntWeakNC else kIntNull)"

text \<open>The signature of an Interaction that a generator has built.\<close>

definition channel_signature :: "Interaction \<Rightarrow> ProcessInfo \<times> int \<times> XclsTag" where
  "channel_signature x = (fProcInfo x, StruckNucleonPDGCode (fTgt (fInitialState x)), fExclusiveTag x)"

text \<open>
  \<open>obj_at h a\<close> is the object at address \<open>a\<close>, if any. A heap \<open>h'\<close> extends \<open>h\<close> when
  every cell of \<open>h\<close> is still there, unchanged.
\<close>

definition obj_at :: "'a heap \<Rightarrow> addr \<Rightarrow> 'a option" where
  "obj_at h a = (if a < length h then h ! a else None)"

definition extends :: "'a heap \<Rightarrow> 'a heap \<Rightarrow> bool" where
  "extends h h' = (take (length h) h' = h)"

section \<open>Concrete inputs\<close>

text \<open>
  A small particle table and the \<open>pdg\<close> functions in the 1AAAZZZ000 ion-code convention,
  used to run the definitions on concrete inputs. The table knows the proton, the
  neutron and carbon-12.
\<close>

definition example_pdg :: PDG where
  "example_pdg =
     \<lparr>Find = (\<lambda>c. if c = 2212 then Some \<lparr>Mass = 938272 / 1000000, Charge = 3, GetName = ''proton''\<rparr>
                  else if c = 2112 then Some \<lparr>Mass = 939565 / 1000000, Charge = 0, GetName = ''neutron''\<rparr>
                  else if c = 1012006000 then Some \<lparr>Mass = 11174860 / 1000000, Charge = 18, GetName = ''C12''\<rparr>
                  else None),
      IsIon = (\<lambda>c. 1000000000 < c \<and> c < 1999999999),
      IonPdgCode = (\<lambda>A Z. 1000000000 + A * 1000000 + Z * 1000),
      IonPdgCodeToZ = (\<lambda>c. c div 1000 - 1000 * (c div 1000000)),
      IonPdgCodeToA = (\<lambda>c. c div 1000000 - 1000),
      IsQuark = (\<lambda>c. 1 \<le> c \<and> c \<le> 6),
      IsAntiQuark = (\<lambda>c. - 6 \<le> c \<and> c \<le> - 1),
      IsNeutrino = (\<lambda>c. c = 12 \<or> c = 14 \<or> c = 16),
      IsAntiNeutrino = (\<lambda>c. c = - 12 \<or> c = - 14 \<or> c = - 16),
      kNucleonMass = 938919 / 1000000\<rparr>"

text \<open>The Target that the default constructor builds in the empty heap, and that heap.\<close>

definition example_target :: Target where
  "example_target = \<lparr>fZ = 0, fA = 0, fTgtPDG = 0, fStruckNucPDG = 0, fStruckQuarkPDG = 0,
                      fStruckSeaQuark = False, fStruckNucP4 = Some 0\<rparr>"

definition example_heap :: "TLorentzVector heap" where
  "example_heap = [Some \<lparr>P4x = 0, P4y = 0, P4z = 0, P4t = 938919 / 1000000\<rparr>]"

text \<open>
  The Target after \<open>Target t; t.SetZA(1, 1);\<close> with the small table, its heap, and
  the Target that the copy constructor builds from it.
\<close>

definition example_proton :: Target where
  "example_proton = \<lparr>fZ = 1, fA = 1, fTgtPDG = 0, fStruckNucPDG = 2212, fStruckQuarkPDG = 0,
                      fStruckSeaQuark = False, fStruckNucP4 = Some 1\<rparr>"

definition example_proton_heap :: "TLorentzVector heap" where
  "example_proton_heap = [None, Some \<lparr>P4x = 0, P4y = 0, P4z = 0, P4t = 938272 / 1000000\<rparr>]"

definition example_proton_copy :: Target where
  "example_proton_copy = \<lparr>fZ = 0, fA = 0, fTgtPDG = 0, fStruckNucPDG = 0, fStruckQuarkPDG = 0,
                      fStruckSeaQuark = False, fStruckNucP4 = Some 2\<rparr>"

text \<open>The Target that \<open>Target(6, 12)\<close> builds in the empty heap: carbon-12.\<close>

definition example_carbon :: Target where
  "example_carbon = \<lparr>fZ = 6, fA = 12, fTgtPDG = 1012006000, fStruckNucPDG = 0, fStruckQuarkPDG = 0,
                      fStruckSeaQuark = False, fStruckNucP4 = Some 0\<rparr>"

text \<open>The Target that \<open>Target(0, 1)\<close> builds in the empty heap: a free neutron.\<close>

definition example_neutron :: Target where
  "example_neutron = \<lparr>fZ = 0, fA = 1, fTgtPDG = 1001000000, fStruckNucPDG = 2112,
                       fStruckQuarkPDG = 0, fStruckSeaQuark = False, fStruckNucP4 = Some 1\<rparr>"

definition example_neutron_heap :: "TLorentzVector heap" where
  "example_neutron_heap = [None, Some \<lparr>P4x = 0, P4y = 0, P4z = 0, P4t = 939565 / 1000000\<rparr>]"

text \<open>
  Initial states: a muon neutrino on carbon-12 and a muon antineutrino on a free neutron,
  each with the store its Target lives in.
\<close>

definition example_nu_carbon :: InitialState where
  "example_nu_carbon = \<lparr>fProbePdg = 14, fProbeP4 = \<lparr>P4x = 0, P4y = 0, P4z = 1, P4t = 1\<rparr>,
                         fTgt = example_carbon\<rparr>"

definition example_store :: store where
  "example_store = \<lparr>p4s = example_heap, interactions = []\<rparr>"

definition example_nubar_neutron :: InitialState where
  "example_nubar_neutron = \<lparr>fProbePdg = - 14, fProbeP4 = \<lparr>P4x = 0, P4y = 0, P4z = 1, P4t = 1\<rparr>,
                         fTgt = example_neutron\<rparr>"

definition example_neutron_store :: store where
  "example_neutron_store = \<lparr>p4s = example_neutron_heap, interactions = []\<rparr>"

text \<open>
  An interaction list with one element, the store that holds the element, and a probe
  four-momentum.
\<close>

definition example_interaction :: Interaction where
  "example_interaction =
     \<lparr>fInitialState = example_nu_carbon,
      fProcInfo = \<lparr>fScatteringType = kScResonant, fInteractionType = kIntWeakCC\<rparr>,
      fExclusiveTag = \<lparr>fNProtons = 1, fNNeutrons = 0, fNPiPlus = 1, fNPi0 = 0, fNPiMinus = 0\<rparr>\<rparr>"

definition example_selection_store :: store where
  "example_selection_store = \<lparr>p4s = example_heap, interactions = [Some example_interaction]\<rparr>"

definition example_igmap :: InteractionGeneratorMap where
  "example_igmap = \<lparr>fInteractionList = [0]\<rparr>"

definition example_p4 :: TLorentzVector where
  "example_p4 = \<lparr>P4x = 0, P4y = 0, P4z = 3, P4t = 3\<rparr>"



section \<open>Properties of the heap\<close>

lemma deref_new: "deref (h @ [Some v]) (length h) = Inr v"
  by (simp add: deref_def)

lemma deref_append_old: "a < length h \<Longrightarrow> deref (h @ xs) a = deref h a"
  by (simp add: deref_def nth_append)

lemma live_append: "live h a \<Longrightarrow> live (h @ xs) a"
  by (auto simp: live_def nth_append)


lemma deref_live: "live h a \<Longrightarrow> \<exists>v. deref h a = Inr v"
  by (auto simp: live_def deref_def)

section \<open>Properties of Target\<close>

lemma example_default: "Target_default example_pdg [] = (example_target, example_heap)"
  by (simp add: Target_default_def Init_def new_obj_def example_pdg_def example_target_def
                example_heap_def)

lemma Init_eq:
  "Init pdg h =
     (\<lparr>fZ = 0, fA = 0, fTgtPDG = 0, fStruckNucPDG = 0, fStruckQuarkPDG = 0,
       fStruckSeaQuark = False, fStruckNucP4 = Some (length h)\<rparr>,
      h @ [Some \<lparr>P4x = 0, P4y = 0, P4z = 0, P4t = kNucleonMass pdg\<rparr>])"
  by (simp add: Init_def new_obj_def)

lemma Init_ok: "P4_ok (snd (Init pdg h)) (fst (Init pdg h))"
  by (simp add: Init_eq P4_ok_def live_def)

lemma example_proton_built:
  "SetZA example_pdg 1 1 example_target example_heap = Inr (example_proton, example_proton_heap)"
  by (simp add: SetZA_def Let_def ForceNucleusValidity_def IsValidNucleus_def IsFreeNucleon_def IsProton_def
        SetStruckNucleonPDGCode_def ForceStruckNucleonValidity_def pdg_IsProton_def pdg_IsNeutron_def
        kPdgProton_def kPdgNeutron_def SetStruckNucleonP4_def delete_obj_def new_obj_def live_def
        seq_def example_pdg_def example_target_def example_heap_def example_proton_def
        example_proton_heap_def)

lemma example_carbon_built: "Target_ZA example_pdg 6 12 [] = Inr (example_carbon, example_heap)"
  by (simp add: Target_ZA_def Init_def new_obj_def SetZA_def Let_def ForceNucleusValidity_def
        IsValidNucleus_def IsFreeNucleon_def example_pdg_def example_carbon_def example_heap_def)

subsection \<open>The setters of the struck nucleon\<close>

lemma SetStruckNucleonP4_ok:
  assumes "P4_ok h t"
  shows "\<exists>h1. SetStruckNucleonP4 p4 t h = Inr (t\<lparr>fStruckNucP4 := Some (length h)\<rparr>, h1 @ [Some p4])
           \<and> length h1 = length h
           \<and> (\<forall>a. a < length h \<and> Some a \<noteq> fStruckNucP4 t \<longrightarrow> h1 ! a = h ! a)"
  using assms
  by (auto simp: P4_ok_def SetStruckNucleonP4_def seq_def delete_obj_def new_obj_def
           split: option.splits)

lemma SetStruckNucleonPDGCode_valid:
  assumes "pdg_IsProton c \<or> pdg_IsNeutron c" and "Find pdg c = Some particle" and "P4_ok h t"
  shows "\<exists>h1. SetStruckNucleonPDGCode pdg c t h =
            Inr (t\<lparr>fStruckNucPDG := c, fStruckNucP4 := Some (length h)\<rparr>,
                 h1 @ [Some \<lparr>P4x = 0, P4y = 0, P4z = 0, P4t = Mass particle\<rparr>])
           \<and> length h1 = length h
           \<and> (\<forall>a. a < length h \<and> Some a \<noteq> fStruckNucP4 t \<longrightarrow> h1 ! a = h ! a)"
proof -
  have ok: "P4_ok h (t\<lparr>fStruckNucPDG := c\<rparr>)"
    using assms(3) by (simp add: P4_ok_def)
  from SetStruckNucleonP4_ok [OF ok, of "\<lparr>P4x = 0, P4y = 0, P4z = 0, P4t = Mass particle\<rparr>"]
  show ?thesis
    using assms(1,2) by (auto simp: SetStruckNucleonPDGCode_def ForceStruckNucleonValidity_def)
qed

lemma SetStruckNucleonPDGCode_invalid:
  assumes "\<not> pdg_IsProton c" and "\<not> pdg_IsNeutron c"
  shows "SetStruckNucleonPDGCode pdg c t h = Inr (t\<lparr>fStruckNucPDG := 0\<rparr>, h)"
  using assms by (simp add: SetStruckNucleonPDGCode_def ForceStruckNucleonValidity_def)

lemma SetStruckNucleonPDGCode_twice:
  assumes "pdg_IsProton c \<or> pdg_IsNeutron c" and "Find pdg c = Some particle" and "P4_ok h t"
  shows "\<exists>h1 h2. SetStruckNucleonPDGCode pdg c t h =
            Inr (t\<lparr>fStruckNucPDG := c, fStruckNucP4 := Some (length h)\<rparr>,
                 h1 @ [Some \<lparr>P4x = 0, P4y = 0, P4z = 0, P4t = Mass particle\<rparr>])
         \<and> length h1 = length h
         \<and> SetStruckNucleonPDGCode pdg c (t\<lparr>fStruckNucPDG := c, fStruckNucP4 := Some (length h)\<rparr>)
                 (h1 @ [Some \<lparr>P4x = 0, P4y = 0, P4z = 0, P4t = Mass particle\<rparr>]) =
            Inr (t\<lparr>fStruckNucPDG := c, fStruckNucP4 := Some (Suc (length h))\<rparr>,
                 h2 @ [Some \<lparr>P4x = 0, P4y = 0, P4z = 0, P4t = Mass particle\<rparr>])
         \<and> length h2 = Suc (length h)"
proof -
  let ?v = "\<lparr>P4x = 0, P4y = 0, P4z = 0, P4t = Mass particle\<rparr>"
  let ?t1 = "t\<lparr>fStruckNucPDG := c, fStruckNucP4 := Some (length h)\<rparr>"
  from SetStruckNucleonPDGCode_valid [OF assms]
  obtain h1 where r1: "SetStruckNucleonPDGCode pdg c t h = Inr (?t1, h1 @ [Some ?v])"
    and l1: "length h1 = length h" by blast
  have ok1: "P4_ok (h1 @ [Some ?v]) ?t1"
    by (simp add: P4_ok_def live_def l1 [symmetric])
  from SetStruckNucleonPDGCode_valid [OF assms(1,2) ok1]
  obtain h2 where r2: "SetStruckNucleonPDGCode pdg c ?t1 (h1 @ [Some ?v]) =
       Inr (?t1\<lparr>fStruckNucPDG := c, fStruckNucP4 := Some (length (h1 @ [Some ?v]))\<rparr>, h2 @ [Some ?v])"
    and l2: "length h2 = length (h1 @ [Some ?v])" by blast
  show ?thesis using r1 l1 r2 l2 by simp
qed

lemma SetZA_free_nucleon:
  assumes "A = 1" and "Z = 0 \<or> Z = 1"
      and "Find pdg (if Z = 1 then kPdgProton else kPdgNeutron) = Some particle"
      and "P4_ok h t"
  shows "\<exists>h1. SetZA pdg Z A t h =
            Inr (t\<lparr>fZ := Z, fA := A, fStruckNucPDG := (if Z = 1 then kPdgProton else kPdgNeutron),
                   fStruckNucP4 := Some (length h)\<rparr>,
                 h1 @ [Some \<lparr>P4x = 0, P4y = 0, P4z = 0, P4t = Mass particle\<rparr>])
           \<and> length h1 = length h"
proof -
  let ?t1 = "t\<lparr>fZ := Z, fA := A\<rparr>"
  let ?c = "if Z = 1 then kPdgProton else kPdgNeutron"
  have free: "IsFreeNucleon ?t1" using assms(1,2) by (simp add: IsFreeNucleon_def)
  have force: "ForceNucleusValidity pdg ?t1 = ?t1"
    using free by (simp add: ForceNucleusValidity_def IsValidNucleus_def)
  have ok: "P4_ok h ?t1" using assms(4) by (simp add: P4_ok_def)
  have valid: "pdg_IsProton ?c \<or> pdg_IsNeutron ?c"
    by (simp add: pdg_IsProton_def pdg_IsNeutron_def)
  have step: "SetZA pdg Z A t h = SetStruckNucleonPDGCode pdg ?c ?t1 h"
    unfolding SetZA_def Let_def force using free assms(1,2) by (auto simp: IsProton_def)
  from SetStruckNucleonPDGCode_valid [OF valid assms(3) ok]
  show ?thesis unfolding step by auto
qed

subsection \<open>The invariant of Target\<close>

text \<open>
  Every constructor establishes \<open>Target_inv\<close> and every mutator keeps it, whenever the
  call completes.
\<close>

lemma IsValidNucleus_cong:
  "fZ t' = fZ t \<Longrightarrow> fA t' = fA t \<Longrightarrow> IsValidNucleus pdg t' = IsValidNucleus pdg t"
  unfolding IsValidNucleus_def IsFreeNucleon_def by auto

lemma Target_invI:
  assumes "IsValidNucleus pdg t \<or> (fZ t = 0 \<and> fA t = 0)"
      and "pdg_IsProton (fStruckNucPDG t) \<or> pdg_IsNeutron (fStruckNucPDG t) \<or> fStruckNucPDG t = 0"
      and "fStruckNucP4 t = Some a" and "live h a"
  shows "Target_inv pdg h t"
  using assms by (simp add: Target_inv_def)

lemma Target_invD:
  assumes "Target_inv pdg h t"
  shows "IsValidNucleus pdg t \<or> (fZ t = 0 \<and> fA t = 0)"
    and "pdg_IsProton (fStruckNucPDG t) \<or> pdg_IsNeutron (fStruckNucPDG t) \<or> fStruckNucPDG t = 0"
    and "\<exists>a. fStruckNucP4 t = Some a \<and> live h a"
    and "P4_ok h t"
  using assms by (auto simp: Target_inv_def P4_ok_def split: option.splits)

lemma live_new: "length h1 = length h \<Longrightarrow> live (h1 @ [Some v]) (length h)"
  by (simp add: live_def nth_append)

lemma Init_inv: "Target_inv pdg (snd (Init pdg h)) ((fst (Init pdg h))\<lparr>fTgtPDG := c\<rparr>)"
  by (simp add: Init_eq Target_inv_def live_def)

lemma Target_default_inv: "Target_inv pdg (snd (Target_default pdg h)) (fst (Target_default pdg h))"
  by (simp add: Target_default_def Init_eq Target_inv_def live_def)

lemma SetStruckNucleonP4_inv:
  assumes "Target_inv pdg h t" and "SetStruckNucleonP4 p4 t h = Inr (t', h')"
  shows "Target_inv pdg h' t'"
proof -
  from SetStruckNucleonP4_ok [OF Target_invD(4) [OF assms(1)], of p4] assms(2)
  obtain h1 where t': "t' = t\<lparr>fStruckNucP4 := Some (length h)\<rparr>" and h': "h' = h1 @ [Some p4]"
    and l: "length h1 = length h" by auto
  have v: "IsValidNucleus pdg t' = IsValidNucleus pdg t"
    by (rule IsValidNucleus_cong) (simp_all add: t')
  show ?thesis
  proof (rule Target_invI)
    show "IsValidNucleus pdg t' \<or> fZ t' = 0 \<and> fA t' = 0"
      using Target_invD(1) [OF assms(1)] v by (simp add: t')
    show "pdg_IsProton (fStruckNucPDG t') \<or> pdg_IsNeutron (fStruckNucPDG t') \<or> fStruckNucPDG t' = 0"
      using Target_invD(2) [OF assms(1)] by (simp add: t')
    show "fStruckNucP4 t' = Some (length h)" by (simp add: t')
    show "live h' (length h)" unfolding h' by (rule live_new [OF l])
  qed
qed

lemma SetStruckNucleonPDGCode_inv:
  assumes "Target_inv pdg h t" and "SetStruckNucleonPDGCode pdg c t h = Inr (t', h')"
  shows "Target_inv pdg h' t'"
proof (cases "pdg_IsProton c \<or> pdg_IsNeutron c")
  case True
  from assms(2) True obtain particle where f: "Find pdg c = Some particle"
    by (auto simp: SetStruckNucleonPDGCode_def ForceStruckNucleonValidity_def split: option.splits)
  from SetStruckNucleonPDGCode_valid [OF True f Target_invD(4) [OF assms(1)]] assms(2)
  obtain h1 where t': "t' = t\<lparr>fStruckNucPDG := c, fStruckNucP4 := Some (length h)\<rparr>"
    and h': "h' = h1 @ [Some \<lparr>P4x = 0, P4y = 0, P4z = 0, P4t = Mass particle\<rparr>]"
    and l: "length h1 = length h" by auto
  have v: "IsValidNucleus pdg t' = IsValidNucleus pdg t"
    by (rule IsValidNucleus_cong) (simp_all add: t')
  show ?thesis
  proof (rule Target_invI)
    show "IsValidNucleus pdg t' \<or> fZ t' = 0 \<and> fA t' = 0"
      using Target_invD(1) [OF assms(1)] v by (simp add: t')
    show "pdg_IsProton (fStruckNucPDG t') \<or> pdg_IsNeutron (fStruckNucPDG t') \<or> fStruckNucPDG t' = 0"
      using True by (auto simp: t')
    show "fStruckNucP4 t' = Some (length h)" by (simp add: t')
    show "live h' (length h)" unfolding h' by (rule live_new [OF l])
  qed
next
  case False
  then have r: "t' = t\<lparr>fStruckNucPDG := 0\<rparr>" "h' = h"
    using assms(2) by (simp_all add: SetStruckNucleonPDGCode_invalid)
  have v: "IsValidNucleus pdg t' = IsValidNucleus pdg t"
    by (rule IsValidNucleus_cong) (simp_all add: r)
  from Target_invD(3) [OF assms(1)] obtain a where a: "fStruckNucP4 t = Some a" "live h a" by blast
  show ?thesis
  proof (rule Target_invI)
    show "IsValidNucleus pdg t' \<or> fZ t' = 0 \<and> fA t' = 0"
      using Target_invD(1) [OF assms(1)] v by (simp add: r)
    show "pdg_IsProton (fStruckNucPDG t') \<or> pdg_IsNeutron (fStruckNucPDG t') \<or> fStruckNucPDG t' = 0"
      by (simp add: r)
    show "fStruckNucP4 t' = Some a" using a by (simp add: r)
    show "live h' a" using a by (simp add: r)
  qed
qed

lemma ForceNucleusValidity_inv:
  assumes "pdg_IsProton (fStruckNucPDG t) \<or> pdg_IsNeutron (fStruckNucPDG t) \<or> fStruckNucPDG t = 0"
      and "fStruckNucP4 t = Some a" and "live h a"
  shows "Target_inv pdg h (ForceNucleusValidity pdg t)"
proof (cases "IsValidNucleus pdg t")
  case True
  then show ?thesis using assms by (simp add: ForceNucleusValidity_def Target_inv_def)
next
  case False
  then show ?thesis using assms by (simp add: ForceNucleusValidity_def Target_inv_def)
qed

lemma SetZA_inv:
  assumes "Target_inv pdg h t" and "SetZA pdg Z A t h = Inr (t', h')"
  shows "Target_inv pdg h' t'"
proof -
  let ?t1 = "ForceNucleusValidity pdg (t\<lparr>fZ := Z, fA := A\<rparr>)"
  from Target_invD(3) [OF assms(1)] obtain a where a: "fStruckNucP4 t = Some a" "live h a" by blast
  have inv1: "Target_inv pdg h ?t1"
  proof (rule ForceNucleusValidity_inv)
    show "pdg_IsProton (fStruckNucPDG (t\<lparr>fZ := Z, fA := A\<rparr>))
          \<or> pdg_IsNeutron (fStruckNucPDG (t\<lparr>fZ := Z, fA := A\<rparr>))
          \<or> fStruckNucPDG (t\<lparr>fZ := Z, fA := A\<rparr>) = 0"
      using Target_invD(2) [OF assms(1)] by simp
    show "fStruckNucP4 (t\<lparr>fZ := Z, fA := A\<rparr>) = Some a" using a by simp
    show "live h a" using a by simp
  qed
  show ?thesis
  proof (cases "IsFreeNucleon ?t1")
    case False
    with assms(2) have "t' = ?t1 \<and> h' = h" by (simp add: SetZA_def Let_def)
    then show ?thesis using inv1 by simp
  next
    case True
    show ?thesis
    proof (cases "IsProton ?t1")
      case p: True
      with True assms(2) have "SetStruckNucleonPDGCode pdg kPdgProton ?t1 h = Inr (t', h')"
        by (simp add: SetZA_def Let_def)
      from SetStruckNucleonPDGCode_inv [OF inv1 this] show ?thesis .
    next
      case n: False
      with True assms(2) have "SetStruckNucleonPDGCode pdg kPdgNeutron ?t1 h = Inr (t', h')"
        by (simp add: SetZA_def Let_def)
      from SetStruckNucleonPDGCode_inv [OF inv1 this] show ?thesis .
    qed
  qed
qed

lemma SetStruckQuarkPDGCode_inv:
  assumes "Target_inv pdg h t"
  shows "Target_inv pdg h (SetStruckQuarkPDGCode pdg c t)"
proof -
  have v: "IsValidNucleus pdg (t\<lparr>fStruckQuarkPDG := c\<rparr>) = IsValidNucleus pdg t"
    by (rule IsValidNucleus_cong) simp_all
  show ?thesis using assms v by (simp add: SetStruckQuarkPDGCode_def Target_inv_def)
qed

lemma SetStruckSeaQuark_inv:
  assumes "Target_inv pdg h t"
  shows "Target_inv pdg h (SetStruckSeaQuark tf t)"
proof -
  have v: "IsValidNucleus pdg (t\<lparr>fStruckSeaQuark := tf\<rparr>) = IsValidNucleus pdg t"
    by (rule IsValidNucleus_cong) simp_all
  show ?thesis using assms v by (simp add: SetStruckSeaQuark_def Target_inv_def)
qed

lemma Target_pdgc_inv:
  assumes "Target_pdgc pdg pdgc h = Inr (t', h')"
  shows "Target_inv pdg h' t'"
proof (cases "IsIon pdg pdgc")
  case True
  with assms have "SetZA pdg (IonPdgCodeToZ pdg pdgc) (IonPdgCodeToA pdg pdgc)
                     ((fst (Init pdg h))\<lparr>fTgtPDG := pdgc\<rparr>) (snd (Init pdg h)) = Inr (t', h')"
    by (simp add: Target_pdgc_def Let_def split: prod.splits)
  from SetZA_inv [OF Init_inv this] show ?thesis .
next
  case False
  with assms have "t' = (fst (Init pdg h))\<lparr>fTgtPDG := pdgc\<rparr> \<and> h' = snd (Init pdg h)"
    by (auto simp: Target_pdgc_def Let_def split: prod.splits)
  then show ?thesis using Init_inv by simp
qed

lemma Target_ZA_inv:
  assumes "Target_ZA pdg Z A h = Inr (t', h')"
  shows "Target_inv pdg h' t'"
proof -
  from assms have "SetZA pdg Z A ((fst (Init pdg h))\<lparr>fTgtPDG := IonPdgCode pdg A Z\<rparr>) (snd (Init pdg h))
                     = Inr (t', h')"
    by (simp add: Target_ZA_def split: prod.splits)
  from SetZA_inv [OF Init_inv this] show ?thesis .
qed

lemma Target_ZA_nuc_inv:
  assumes "Target_ZA_nuc pdg Z A c h = Inr (t', h')"
  shows "Target_inv pdg h' t'"
proof -
  let ?t0 = "(fst (Init pdg h))\<lparr>fZ := Z, fA := A, fTgtPDG := IonPdgCode pdg A Z\<rparr>"
  have inv1: "Target_inv pdg (snd (Init pdg h)) (ForceNucleusValidity pdg ?t0)"
  proof (rule ForceNucleusValidity_inv)
    show "pdg_IsProton (fStruckNucPDG ?t0) \<or> pdg_IsNeutron (fStruckNucPDG ?t0) \<or> fStruckNucPDG ?t0 = 0"
      by (simp add: Init_eq)
    show "fStruckNucP4 ?t0 = Some (length h)" by (simp add: Init_eq)
    show "live (snd (Init pdg h)) (length h)" by (simp add: Init_eq live_def)
  qed
  from assms have "SetStruckNucleonPDGCode pdg c (ForceNucleusValidity pdg ?t0) (snd (Init pdg h)) = Inr (t', h')"
    by (simp add: Target_ZA_nuc_def split: prod.splits)
  from SetStruckNucleonPDGCode_inv [OF inv1 this] show ?thesis .
qed

lemma ForceStruckNucleonValidity_inv:
  assumes "IsValidNucleus pdg t \<or> (fZ t = 0 \<and> fA t = 0)" and "fStruckNucP4 t = Some a" and "live h a"
  shows "Target_inv pdg h (snd (ForceStruckNucleonValidity t))"
proof (cases "pdg_IsProton (fStruckNucPDG t) \<or> pdg_IsNeutron (fStruckNucPDG t)")
  case True
  then show ?thesis using assms by (auto simp: ForceStruckNucleonValidity_def Target_inv_def)
next
  case False
  have v: "IsValidNucleus pdg (t\<lparr>fStruckNucPDG := 0\<rparr>) = IsValidNucleus pdg t"
    by (rule IsValidNucleus_cong) simp_all
  show ?thesis using False assms v by (simp add: ForceStruckNucleonValidity_def Target_inv_def)
qed

lemma ForceNucleusValidity_valid:
  "IsValidNucleus pdg (ForceNucleusValidity pdg t)
   \<or> (fZ (ForceNucleusValidity pdg t) = 0 \<and> fA (ForceNucleusValidity pdg t) = 0)"
  by (simp add: ForceNucleusValidity_def)

lemma ForceNucleusValidity_P4: "fStruckNucP4 (ForceNucleusValidity pdg t) = fStruckNucP4 t"
  by (simp add: ForceNucleusValidity_def)

lemma Copy_inv:
  assumes "Copy pdg tgt h = Inr (t', h')"
  shows "Target_inv pdg h' t'"
proof (cases "IsIon pdg (fTgtPDG tgt)")
  case False
  with assms have "t' = (fst (Init pdg h))\<lparr>fTgtPDG := fTgtPDG tgt\<rparr> \<and> h' = snd (Init pdg h)"
    by (auto simp: Copy_def Let_def Init_eq)
  then show ?thesis using Init_inv by simp
next
  case True
  let ?h0 = "h @ [Some \<lparr>P4x = 0, P4y = 0, P4z = 0, P4t = kNucleonMass pdg\<rparr>]"
  let ?t2 = "\<lparr>fZ = fZ tgt, fA = fA tgt, fTgtPDG = fTgtPDG tgt, fStruckNucPDG = fStruckNucPDG tgt,
             fStruckQuarkPDG = fStruckQuarkPDG tgt, fStruckSeaQuark = fStruckSeaQuark tgt,
             fStruckNucP4 = Some (length h)\<rparr>"
  have "\<exists>t3 h1 a. t' = snd (ForceStruckNucleonValidity (ForceNucleusValidity pdg t3)) \<and> h' = h1
           \<and> fStruckNucP4 t3 = Some a \<and> live h1 a"
  proof (cases "fStruckNucP4 tgt")
    case None
    with assms True have "t' = snd (ForceStruckNucleonValidity (ForceNucleusValidity pdg ?t2)) \<and> h' = ?h0"
      by (simp add: Copy_def Let_def Init_eq seq_def)
    moreover have "fStruckNucP4 ?t2 = Some (length h) \<and> live ?h0 (length h)"
      by (simp add: live_def)
    ultimately show ?thesis by blast
  next
    case (Some q)
    show ?thesis
    proof (cases "deref ?h0 q")
      case (Inl e)
      with assms True Some show ?thesis by (simp add: Copy_def Let_def Init_eq seq_def)
    next
      case (Inr v)
      with assms True Some
      have "t' = snd (ForceStruckNucleonValidity (ForceNucleusValidity pdg
                   (?t2\<lparr>fStruckNucP4 := Some (Suc (length h))\<rparr>))) \<and> h' = ?h0 @ [Some v]"
        by (simp add: Copy_def Let_def Init_eq seq_def new_obj_def)
      moreover have "fStruckNucP4 (?t2\<lparr>fStruckNucP4 := Some (Suc (length h))\<rparr>) = Some (Suc (length h))
                     \<and> live (?h0 @ [Some v]) (Suc (length h))"
        by (simp add: live_def nth_append)
      ultimately show ?thesis by blast
    qed
  qed
  then obtain t3 h1 a where
      t': "t' = snd (ForceStruckNucleonValidity (ForceNucleusValidity pdg t3))" and h': "h' = h1"
      and a: "fStruckNucP4 t3 = Some a" "live h1 a"
    by blast
  show ?thesis unfolding t' h'
  proof (rule ForceStruckNucleonValidity_inv)
    show "IsValidNucleus pdg (ForceNucleusValidity pdg t3)
          \<or> fZ (ForceNucleusValidity pdg t3) = 0 \<and> fA (ForceNucleusValidity pdg t3) = 0"
      by (rule ForceNucleusValidity_valid)
    show "fStruckNucP4 (ForceNucleusValidity pdg t3) = Some a"
      using a by (simp add: ForceNucleusValidity_P4)
    show "live h1 a" using a by simp
  qed
qed

subsection \<open>SetZA on a pair that is no nucleus\<close>

text \<open>
  For a pair \<open>(Z, A)\<close> that is neither a free nucleon nor in the table, \<open>SetZA\<close> resets
  \<open>fZ\<close> and \<open>fA\<close> to 0 and does nothing else. What \<open>IsValidNucleus()\<close> returns after
  that is the table lookup of the ion code of \<open>(0, 0)\<close>.
\<close>

lemma SetZA_invalid_reset:
  assumes "\<not> (A = 1 \<and> (Z = 0 \<or> Z = 1))"
      and "Find pdg (IonPdgCode pdg A Z) = None"
  shows "SetZA pdg Z A t h = Inr (t\<lparr>fZ := 0, fA := 0\<rparr>, h)
         \<and> (IsValidNucleus pdg (t\<lparr>fZ := 0, fA := 0\<rparr>) \<longleftrightarrow> Find pdg (IonPdgCode pdg 0 0) \<noteq> None)"
  using assms
  by (auto simp: SetZA_def ForceNucleusValidity_def IsValidNucleus_def IsFreeNucleon_def
           split: option.splits)

text \<open>
  Claim C6. Let \<open>(Z, A)\<close> be neither a free nucleon (\<open>A = 1\<close> with \<open>Z\<close> 0 or 1) nor a pair
  whose ion code the particle table resolves, and let the table have no entry for the
  pair \<open>(0, 0)\<close>, which the spec calls the invalid, empty target. Then \<open>SetZA(Z, A)\<close>
  completes without error, changes nothing but \<open>fZ\<close> and \<open>fA\<close>, leaves \<open>Z\<close> and \<open>A\<close> both
  at 0, and \<open>IsValidNucleus()\<close> returns false afterwards.
\<close>

theorem SetZA_invalid:
  assumes "\<not> (A = 1 \<and> (Z = 0 \<or> Z = 1))"
      and "Find pdg (IonPdgCode pdg A Z) = None"
      and "Find pdg (IonPdgCode pdg 0 0) = None"
  shows "\<exists>t'. SetZA pdg Z A t h = Inr (t', h)
           \<and> t' = t\<lparr>fZ := 0, fA := 0\<rparr>
           \<and> Target_Z t' = 0 \<and> Target_A t' = 0
           \<and> \<not> IsValidNucleus pdg t'"
  using SetZA_invalid_reset [OF assms(1,2), of t h] assms(3)
  by (simp add: Target_Z_def Target_A_def)

text \<open>
  With the small table, \<open>(Z, A) = (5, 3)\<close> is reset to \<open>(0, 0)\<close> on the default Target,
  which is not a valid nucleus afterwards.
\<close>

theorem SetZA_invalid_witness:
  "SetZA example_pdg 5 3 example_target example_heap = Inr (example_target, example_heap)
   \<and> Target_Z example_target = 0 \<and> Target_A example_target = 0
   \<and> \<not> IsValidNucleus example_pdg example_target"
proof -
  have a: "\<not> ((3::int) = 1 \<and> ((5::int) = 0 \<or> (5::int) = 1))" by simp
  have b: "Find example_pdg (IonPdgCode example_pdg 3 5) = None"
    by (simp add: example_pdg_def)
  have c: "Find example_pdg (IonPdgCode example_pdg 0 0) = None"
    by (simp add: example_pdg_def)
  have e: "example_target\<lparr>fZ := 0, fA := 0\<rparr> = example_target"
    by (simp add: example_target_def)
  show ?thesis
    using SetZA_invalid [OF a b c, of example_target example_heap] by (simp add: e)
qed

subsection \<open>SetZA on a free nucleon\<close>

text \<open>
  Claim C7. Let \<open>A = 1\<close> and \<open>Z\<close> be 0 or 1, and let the particle table have an entry
  for the nucleon in question (the proton for \<open>Z = 1\<close>, the neutron for \<open>Z = 0\<close>), from
  which the mass \<open>M\<close> is read. Then both \<open>SetZA(Z, A)\<close>, called on a Target whose
  four-vector pointer is null or live, and the constructor \<open>Target(Z, A)\<close> complete and
  leave a Target for which \<open>IsFreeNucleon()\<close> holds, whose struck-nucleon code is the
  proton code for \<open>Z = 1\<close> and the neutron code for \<open>Z = 0\<close>, and whose struck-nucleon
  four-vector is \<open>(0, 0, 0, M)\<close>.
\<close>

theorem free_nucleon_auto_struck:
  assumes "A = 1" and "Z = 0 \<or> Z = 1"
      and "Find pdg (if Z = 1 then kPdgProton else kPdgNeutron) = Some particle"
      and "P4_ok h t"
  shows "(\<exists>t' h'. SetZA pdg Z A t h = Inr (t', h')
            \<and> IsFreeNucleon t'
            \<and> StruckNucleonPDGCode t' = (if Z = 1 then kPdgProton else kPdgNeutron)
            \<and> StruckNucleonP4_value h' t' = Inr (Some \<lparr>P4x = 0, P4y = 0, P4z = 0, P4t = Mass particle\<rparr>))
       \<and> (\<exists>t' h'. Target_ZA pdg Z A h = Inr (t', h')
            \<and> IsFreeNucleon t'
            \<and> StruckNucleonPDGCode t' = (if Z = 1 then kPdgProton else kPdgNeutron)
            \<and> StruckNucleonP4_value h' t' = Inr (Some \<lparr>P4x = 0, P4y = 0, P4z = 0, P4t = Mass particle\<rparr>))"
proof
  from SetZA_free_nucleon [OF assms]
  obtain h1 where r: "SetZA pdg Z A t h =
            Inr (t\<lparr>fZ := Z, fA := A, fStruckNucPDG := (if Z = 1 then kPdgProton else kPdgNeutron),
                   fStruckNucP4 := Some (length h)\<rparr>,
                 h1 @ [Some \<lparr>P4x = 0, P4y = 0, P4z = 0, P4t = Mass particle\<rparr>])"
     and l: "length h1 = length h" by blast
  show "\<exists>t' h'. SetZA pdg Z A t h = Inr (t', h')
            \<and> IsFreeNucleon t'
            \<and> StruckNucleonPDGCode t' = (if Z = 1 then kPdgProton else kPdgNeutron)
            \<and> StruckNucleonP4_value h' t' = Inr (Some \<lparr>P4x = 0, P4y = 0, P4z = 0, P4t = Mass particle\<rparr>)"
    unfolding r using assms(1,2) l [symmetric]
    by (simp add: IsFreeNucleon_def StruckNucleonPDGCode_def StruckNucleonP4_value_def
                  StruckNucleonP4_def deref_new seq_def)
next
  obtain t0 h0 where i: "Init pdg h = (t0, h0)" by (cases "Init pdg h")
  let ?t0 = "t0\<lparr>fTgtPDG := IonPdgCode pdg A Z\<rparr>"
  have ok: "P4_ok h0 ?t0" using Init_ok [of pdg h] by (simp add: i P4_ok_def)
  from SetZA_free_nucleon [OF assms(1,2,3) ok]
  obtain h1 where r: "SetZA pdg Z A ?t0 h0 =
            Inr (?t0\<lparr>fZ := Z, fA := A, fStruckNucPDG := (if Z = 1 then kPdgProton else kPdgNeutron),
                   fStruckNucP4 := Some (length h0)\<rparr>,
                 h1 @ [Some \<lparr>P4x = 0, P4y = 0, P4z = 0, P4t = Mass particle\<rparr>])"
     and l: "length h1 = length h0" by blast
  show "\<exists>t' h'. Target_ZA pdg Z A h = Inr (t', h')
            \<and> IsFreeNucleon t'
            \<and> StruckNucleonPDGCode t' = (if Z = 1 then kPdgProton else kPdgNeutron)
            \<and> StruckNucleonP4_value h' t' = Inr (Some \<lparr>P4x = 0, P4y = 0, P4z = 0, P4t = Mass particle\<rparr>)"
    unfolding Target_ZA_def i using r assms(1,2) l [symmetric]
    by (simp add: IsFreeNucleon_def StruckNucleonPDGCode_def StruckNucleonP4_value_def
                  StruckNucleonP4_def deref_new seq_def)
qed

text \<open>The free proton, with the small table: \<open>M = 0.938272\<close>.\<close>

theorem free_nucleon_auto_struck_witness:
  "(\<exists>t' h'. SetZA example_pdg 1 1 example_target example_heap = Inr (t', h')
            \<and> IsFreeNucleon t'
            \<and> StruckNucleonPDGCode t' = kPdgProton
            \<and> StruckNucleonP4_value h' t' = Inr (Some \<lparr>P4x = 0, P4y = 0, P4z = 0, P4t = 938272 / 1000000\<rparr>))
       \<and> (\<exists>t' h'. Target_ZA example_pdg 1 1 example_heap = Inr (t', h')
            \<and> IsFreeNucleon t'
            \<and> StruckNucleonPDGCode t' = kPdgProton
            \<and> StruckNucleonP4_value h' t' = Inr (Some \<lparr>P4x = 0, P4y = 0, P4z = 0, P4t = 938272 / 1000000\<rparr>))"
proof -
  have f: "Find example_pdg (if (1::int) = 1 then kPdgProton else kPdgNeutron)
             = Some \<lparr>Mass = 938272 / 1000000, Charge = 3, GetName = ''proton''\<rparr>"
    by (simp add: example_pdg_def kPdgProton_def)
  have ok: "P4_ok example_heap example_target"
    by (simp add: P4_ok_def example_heap_def example_target_def live_def)
  show ?thesis
    using free_nucleon_auto_struck [where A = 1 and Z = 1 and pdg = example_pdg
            and h = example_heap and t = example_target, OF refl _ f ok]
    by simp
qed

subsection \<open>Setting the struck nucleon twice\<close>

text \<open>
  Claim C10. Let \<open>c\<close> be the proton code or the neutron code. Calling
  \<open>SetStruckNucleonPDGCode(c)\<close> twice in succession shows the caller the same
  struck-nucleon code and the same struck-nucleon four-vector as calling it once (and the
  same error, where the first call already fails). When the particle table has an entry
  for \<open>c\<close> and the four-vector pointer of the Target is null or live, the call
  completes, the code is \<open>c\<close> and the four-vector is \<open>(0, 0, 0, M)\<close> with \<open>M\<close> the
  mass in that entry.
\<close>

theorem SetStruckNucleonPDGCode_idempotent:
  assumes "pdg_IsProton c \<or> pdg_IsNeutron c"
  shows "struck_nucleon_view
           (seq (SetStruckNucleonPDGCode pdg c t h) (\<lambda>(t1, h1). SetStruckNucleonPDGCode pdg c t1 h1))
         = struck_nucleon_view (SetStruckNucleonPDGCode pdg c t h)
       \<and> (\<forall>particle. Find pdg c = Some particle \<and> P4_ok h t \<longrightarrow>
            struck_nucleon_view (SetStruckNucleonPDGCode pdg c t h)
              = Inr (c, Some \<lparr>P4x = 0, P4y = 0, P4z = 0, P4t = Mass particle\<rparr>))"
proof (cases "Find pdg c")
  case None
  then show ?thesis using assms
    by (simp add: SetStruckNucleonPDGCode_def ForceStruckNucleonValidity_def seq_def)
next
  case (Some particle)
  show ?thesis
  proof (cases "P4_ok h t")
    case True
    from SetStruckNucleonPDGCode_twice [OF assms Some True]
    show ?thesis using Some True
      by (auto simp: struck_nucleon_view_def seq_def StruckNucleonP4_value_def StruckNucleonP4_def
                     StruckNucleonPDGCode_def deref_def nth_append)
  next
    case False
    then have "SetStruckNucleonPDGCode pdg c t h = Inl InvalidPointer"
      using assms Some
      by (auto simp: SetStruckNucleonPDGCode_def ForceStruckNucleonValidity_def P4_ok_def
                     SetStruckNucleonP4_def delete_obj_def seq_def split: option.splits)
    then show ?thesis using False by (simp add: seq_def)
  qed
qed

text \<open>Twice the neutron code on the default Target, with the small table.\<close>

theorem SetStruckNucleonPDGCode_idempotent_witness:
  "struck_nucleon_view
     (seq (SetStruckNucleonPDGCode example_pdg kPdgNeutron example_target example_heap)
        (\<lambda>(t1, h1). SetStruckNucleonPDGCode example_pdg kPdgNeutron t1 h1))
   = Inr (kPdgNeutron, Some \<lparr>P4x = 0, P4y = 0, P4z = 0, P4t = 939565 / 1000000\<rparr>)"
proof -
  have v: "pdg_IsProton kPdgNeutron \<or> pdg_IsNeutron kPdgNeutron"
    by (simp add: pdg_IsNeutron_def)
  have f: "Find example_pdg kPdgNeutron
             = Some \<lparr>Mass = 939565 / 1000000, Charge = 0, GetName = ''neutron''\<rparr>"
    by (simp add: example_pdg_def kPdgNeutron_def)
  have ok: "P4_ok example_heap example_target"
    by (simp add: P4_ok_def example_heap_def example_target_def live_def)
  show ?thesis
    using SetStruckNucleonPDGCode_idempotent [OF v, of example_pdg example_target example_heap] f ok
    by simp
qed

subsection \<open>Copying a Target\<close>

lemma Copy_ion:
  assumes "IsIon pdg (fTgtPDG t)" and "Target_inv pdg h t"
  shows "\<exists>q v. fStruckNucP4 t = Some q \<and> deref h q = Inr v
           \<and> Copy pdg t h =
               Inr (t\<lparr>fStruckNucP4 := Some (Suc (length h))\<rparr>,
                    h @ [Some \<lparr>P4x = 0, P4y = 0, P4z = 0, P4t = kNucleonMass pdg\<rparr>, Some v])"
proof -
  from assms(2) obtain q where q: "fStruckNucP4 t = Some q" and lq: "live h q"
    by (auto simp: Target_inv_def split: option.splits)
  from deref_live [OF lq] obtain v where v: "deref h q = Inr v" by blast
  let ?h0 = "h @ [Some \<lparr>P4x = 0, P4y = 0, P4z = 0, P4t = kNucleonMass pdg\<rparr>]"
  have d0: "deref ?h0 q = Inr v"
    using lq v by (simp add: deref_append_old live_def)
  let ?t3 = "t\<lparr>fStruckNucP4 := Some (Suc (length h))\<rparr>"
  have valid: "ForceNucleusValidity pdg ?t3 = ?t3"
    using assms(2) by (auto simp: Target_inv_def ForceNucleusValidity_def IsValidNucleus_def IsFreeNucleon_def)
  have nuc: "snd (ForceStruckNucleonValidity ?t3) = ?t3"
    using assms(2) by (auto simp: Target_inv_def ForceStruckNucleonValidity_def)
  have eq: "\<lparr>fZ = fZ t, fA = fA t, fTgtPDG = fTgtPDG t, fStruckNucPDG = fStruckNucPDG t,
              fStruckQuarkPDG = fStruckQuarkPDG t, fStruckSeaQuark = fStruckSeaQuark t,
              fStruckNucP4 = Some (Suc (length h))\<rparr> = ?t3"
    by (cases t) simp
  have "Copy pdg t h = Inr (snd (ForceStruckNucleonValidity (ForceNucleusValidity pdg ?t3)), ?h0 @ [Some v])"
    using assms(1) q d0
    by (simp add: Copy_def Init_eq Let_def seq_def new_obj_def eq)
  then show ?thesis using q v by (simp add: valid nuc)
qed

text \<open>
  Claim C8, as amended. Let \<open>t\<close> be a Target in the state that the constructors and
  mutators leave (\<open>Target_inv\<close>) whose PDG code is an ion code (\<open>pdg::IsIon\<close>). Then
  copying \<open>t\<close> completes and the copy agrees with \<open>t\<close> on \<open>Z\<close>, \<open>A\<close>, \<open>N\<close>, the PDG
  code, the struck-nucleon code, the struck-quark code, the sea-quark flag and the value
  of the struck-nucleon four-vector. The copy's four-vector is an object of its own: its
  pointer differs from the source's, it did not exist before the copy, and the source
  still reads its own four-vector afterwards.
\<close>

theorem Target_copy_of_ion:
  assumes "IsIon pdg (PDGCode t)" and "Target_inv pdg h t"
  shows "\<exists>t' h'. Target_copy pdg t h = Inr (t', h')
           \<and> Target_Z t' = Target_Z t \<and> Target_A t' = Target_A t \<and> Target_N t' = Target_N t
           \<and> PDGCode t' = PDGCode t
           \<and> StruckNucleonPDGCode t' = StruckNucleonPDGCode t
           \<and> StruckQuarkPDGCode t' = StruckQuarkPDGCode t
           \<and> StruckQuarkIsFromSea t' = StruckQuarkIsFromSea t
           \<and> StruckNucleonP4_value h' t' = StruckNucleonP4_value h t
           \<and> StruckNucleonP4 t' \<noteq> StruckNucleonP4 t
           \<and> \<not> P4_ok h t' \<and> P4_ok h' t'
           \<and> StruckNucleonP4_value h' t = StruckNucleonP4_value h t
           \<and> Target_inv pdg h' t \<and> Target_inv pdg h' t'"
proof -
  have ion: "IsIon pdg (fTgtPDG t)" using assms(1) by (simp add: PDGCode_def)
  from Copy_ion [OF ion assms(2)]
  obtain q v where q: "fStruckNucP4 t = Some q" and v: "deref h q = Inr v"
    and c: "Copy pdg t h =
               Inr (t\<lparr>fStruckNucP4 := Some (Suc (length h))\<rparr>,
                    h @ [Some \<lparr>P4x = 0, P4y = 0, P4z = 0, P4t = kNucleonMass pdg\<rparr>, Some v])"
    by blast
  have lq: "live h q" using assms(2) q by (simp add: Target_inv_def)
  then have ql: "q < length h" by (simp add: live_def)
  show ?thesis
    unfolding Target_copy_def c
    using q v ql lq assms(2)
    by (auto simp: Target_Z_def Target_A_def Target_N_def PDGCode_def StruckNucleonPDGCode_def
          StruckQuarkPDGCode_def StruckQuarkIsFromSea_def StruckNucleonP4_value_def
          StruckNucleonP4_def seq_def deref_def nth_append P4_ok_def live_def Target_inv_def
          IsValidNucleus_def IsFreeNucleon_def)
qed

text \<open>Copying carbon-12.\<close>

theorem Target_copy_of_ion_witness:
  "\<exists>t' h'. Target_copy example_pdg example_carbon example_heap = Inr (t', h')
           \<and> Target_Z t' = 6 \<and> Target_A t' = 12 \<and> Target_N t' = 6
           \<and> PDGCode t' = 1012006000
           \<and> StruckNucleonP4_value h' t' = Inr (Some \<lparr>P4x = 0, P4y = 0, P4z = 0, P4t = 938919 / 1000000\<rparr>)
           \<and> StruckNucleonP4 t' \<noteq> Some 0"
proof -
  have i: "IsIon example_pdg (PDGCode example_carbon)"
    by (simp add: example_pdg_def example_carbon_def PDGCode_def)
  have v: "Target_inv example_pdg example_heap example_carbon"
    by (simp add: Target_inv_def IsValidNucleus_def IsFreeNucleon_def example_pdg_def
          example_carbon_def example_heap_def live_def)
  have o: "Target_Z example_carbon = 6 \<and> Target_A example_carbon = 12 \<and> Target_N example_carbon = 6
     \<and> PDGCode example_carbon = 1012006000 \<and> StruckNucleonP4 example_carbon = Some 0
     \<and> StruckNucleonP4_value example_heap example_carbon
         = Inr (Some \<lparr>P4x = 0, P4y = 0, P4z = 0, P4t = 938919 / 1000000\<rparr>)"
    by (simp add: example_carbon_def example_heap_def Target_Z_def Target_A_def Target_N_def
          PDGCode_def StruckNucleonP4_def StruckNucleonP4_value_def deref_def seq_def)
  show ?thesis using Target_copy_of_ion [OF i v] o by auto
qed

text \<open>
  Claim C8 as stated fails for a Target whose PDG code is not an ion code: \<open>Copy\<close>
  copies \<open>Z\<close>, \<open>A\<close>, the struck codes, the flag and the four-vector only inside
  \<open>if (pdg::IsIon(fTgtPDG))\<close>. The Target built by \<open>Target t; t.SetZA(1, 1);\<close> is a
  free proton with PDG code 0; its copy has \<open>Z = A = 0\<close> and no struck nucleon.
\<close>

theorem Target_copy_counterexample:
  "SetZA example_pdg 1 1 example_target example_heap = Inr (example_proton, example_proton_heap)
   \<and> Target_copy example_pdg example_proton example_proton_heap =
       Inr (example_proton_copy,
            example_proton_heap @ [Some \<lparr>P4x = 0, P4y = 0, P4z = 0, P4t = 938919 / 1000000\<rparr>])
   \<and> Target_Z example_proton = 1 \<and> Target_Z example_proton_copy = 0
   \<and> Target_A example_proton = 1 \<and> Target_A example_proton_copy = 0
   \<and> StruckNucleonPDGCode example_proton = kPdgProton
   \<and> StruckNucleonPDGCode example_proton_copy = 0"
proof -
  have c: "Target_copy example_pdg example_proton example_proton_heap =
       Inr (example_proton_copy,
            example_proton_heap @ [Some \<lparr>P4x = 0, P4y = 0, P4z = 0, P4t = 938919 / 1000000\<rparr>])"
    by (simp add: Target_copy_def Copy_def Init_def new_obj_def example_pdg_def
          example_proton_def example_proton_heap_def example_proton_copy_def)
  have o: "Target_Z example_proton = 1 \<and> Target_Z example_proton_copy = 0
     \<and> Target_A example_proton = 1 \<and> Target_A example_proton_copy = 0
     \<and> StruckNucleonPDGCode example_proton = kPdgProton
     \<and> StruckNucleonPDGCode example_proton_copy = 0"
    by (simp add: example_proton_def example_proton_copy_def Target_Z_def Target_A_def
          StruckNucleonPDGCode_def kPdgProton_def)
  show ?thesis using example_proton_built c o by blast
qed

section \<open>Properties of the store\<close>

lemma extends_iff:
  "extends h h' \<longleftrightarrow> length h \<le> length h' \<and> (\<forall>a < length h. h' ! a = h ! a)"
proof
  assume e: "extends h h'"
  then have t: "take (length h) h' = h" by (simp add: extends_def)
  have l: "length h \<le> length h'"
    using arg_cong [OF t, of length] by simp
  have "\<forall>a < length h. h' ! a = h ! a"
  proof (intro allI impI)
    fix a assume a: "a < length h"
    have "take (length h) h' ! a = h' ! a" using a by simp
    then show "h' ! a = h ! a" using t by simp
  qed
  with l show "length h \<le> length h' \<and> (\<forall>a < length h. h' ! a = h ! a)" by simp
next
  assume "length h \<le> length h' \<and> (\<forall>a < length h. h' ! a = h ! a)"
  then have "take (length h) h' = h"
    by (intro nth_equalityI) simp_all
  then show "extends h h'" by (simp add: extends_def)
qed

lemma extends_refl: "extends h h"
  by (simp add: extends_iff)

lemma extends_trans: "extends h h' \<Longrightarrow> extends h' h'' \<Longrightarrow> extends h h''"
  by (auto simp: extends_iff)

lemma extends_append: "extends h (h @ xs)"
  by (simp add: extends_iff nth_append)

lemma extends_live: "extends h h' \<Longrightarrow> live h a \<Longrightarrow> live h' a"
  by (auto simp: extends_iff live_def)

lemma extends_P4_ok: "extends h h' \<Longrightarrow> P4_ok h t \<Longrightarrow> P4_ok h' t"
  by (auto simp: P4_ok_def extends_live split: option.splits)

lemma extends_obj_at: "extends h h' \<Longrightarrow> a < length h \<Longrightarrow> obj_at h' a = obj_at h a"
  by (auto simp: extends_iff obj_at_def)

lemma assign_new:
  "assign_obj (length h) v (h @ [Some w]) = Inr (h @ [Some v])"
  by (simp add: assign_obj_def live_def)

lemma ForceStruckNucleonValidity_P4:
  "fStruckNucP4 (snd (ForceStruckNucleonValidity t)) = fStruckNucP4 t"
  by (simp add: ForceStruckNucleonValidity_def Let_def)

text \<open>
  Copying a Target whose four-vector pointer is null or live completes, only adds cells
  to the heap, and leaves the copy with a live four-vector among the new cells.
\<close>

lemma Copy_ok:
  assumes "P4_ok h tgt"
  shows "\<exists>t' h1 q. Copy pdg tgt h = Inr (t', h @ h1)
           \<and> fStruckNucP4 t' = Some q \<and> length h \<le> q \<and> live (h @ h1) q"
proof (cases "IsIon pdg (fTgtPDG tgt)")
  case False
  let ?d = "Some \<lparr>P4x = 0, P4y = 0, P4z = 0, P4t = kNucleonMass pdg\<rparr>"
  from False have "Copy pdg tgt h = Inr ((fst (Init pdg h))\<lparr>fTgtPDG := fTgtPDG tgt\<rparr>, h @ [?d])"
    by (simp add: Copy_def Let_def Init_eq)
  moreover have "fStruckNucP4 ((fst (Init pdg h))\<lparr>fTgtPDG := fTgtPDG tgt\<rparr>) = Some (length h)"
    by (simp add: Init_eq)
  moreover have "live (h @ [?d]) (length h)" by (simp add: live_def)
  ultimately show ?thesis by blast
next
  case True
  let ?d = "Some \<lparr>P4x = 0, P4y = 0, P4z = 0, P4t = kNucleonMass pdg\<rparr>"
  let ?h0 = "h @ [?d]"
  let ?t2 = "\<lparr>fZ = fZ tgt, fA = fA tgt, fTgtPDG = fTgtPDG tgt, fStruckNucPDG = fStruckNucPDG tgt,
             fStruckQuarkPDG = fStruckQuarkPDG tgt, fStruckSeaQuark = fStruckSeaQuark tgt,
             fStruckNucP4 = Some (length h)\<rparr>"
  show ?thesis
  proof (cases "fStruckNucP4 tgt")
    case None
    with True
    have "Copy pdg tgt h = Inr (snd (ForceStruckNucleonValidity (ForceNucleusValidity pdg ?t2)), ?h0)"
      by (simp add: Copy_def Let_def Init_eq seq_def)
    moreover have "fStruckNucP4 (snd (ForceStruckNucleonValidity (ForceNucleusValidity pdg ?t2)))
                     = Some (length h)"
      by (simp add: ForceStruckNucleonValidity_P4 ForceNucleusValidity_P4)
    moreover have "live ?h0 (length h)" by (simp add: live_def)
    ultimately show ?thesis by blast
  next
    case (Some q0)
    then have lq: "live h q0" using assms by (simp add: P4_ok_def)
    from deref_live [OF lq] obtain v where v: "deref h q0 = Inr v" by blast
    have d0: "deref ?h0 q0 = Inr v"
      using lq v by (simp add: deref_append_old live_def)
    let ?t3 = "?t2\<lparr>fStruckNucP4 := Some (Suc (length h))\<rparr>"
    from True Some d0
    have "Copy pdg tgt h
            = Inr (snd (ForceStruckNucleonValidity (ForceNucleusValidity pdg ?t3)), h @ [?d, Some v])"
      by (simp add: Copy_def Let_def Init_eq seq_def new_obj_def)
    moreover have "fStruckNucP4 (snd (ForceStruckNucleonValidity (ForceNucleusValidity pdg ?t3)))
                     = Some (Suc (length h))"
      by (simp add: ForceStruckNucleonValidity_P4 ForceNucleusValidity_P4)
    moreover have "live (h @ [?d, Some v]) (Suc (length h))" by (simp add: live_def nth_append)
    moreover have "length h \<le> Suc (length h)" by simp
    ultimately show ?thesis by blast
  qed
qed

lemma InitialState_copy_ok:
  assumes "P4_ok h (fTgt i)"
  shows "\<exists>i' h1. InitialState_copy pdg i h = Inr (i', h @ h1)
           \<and> P4_ok (h @ h1) (fTgt i')
           \<and> (\<forall>q. fStruckNucP4 (fTgt i') = Some q \<longrightarrow> length h \<le> q)"
proof -
  from Copy_ok [OF assms, of pdg] obtain t' h1 q
    where c: "Copy pdg (fTgt i) h = Inr (t', h @ h1)"
      and q: "fStruckNucP4 t' = Some q" "length h \<le> q" "live (h @ h1) q"
    by blast
  have "InitialState_copy pdg i h = Inr (i\<lparr>fTgt := t'\<rparr>, h @ h1)"
    by (simp add: InitialState_copy_def Target_copy_def c seq_def)
  moreover have "P4_ok (h @ h1) (fTgt (i\<lparr>fTgt := t'\<rparr>))"
    using q by (simp add: P4_ok_def)
  moreover have "\<forall>p. fStruckNucP4 (fTgt (i\<lparr>fTgt := t'\<rparr>)) = Some p \<longrightarrow> length h \<le> p"
    using q by simp
  ultimately show ?thesis by blast
qed


lemma new_Interaction_ok:
  assumes "P4_ok (p4s s) (fTgt init_state)"
  shows "\<exists>i' h1. new_Interaction pdg init_state proc_info s =
            Inr (length (interactions s),
                 \<lparr>p4s = p4s s @ h1,
                  interactions = interactions s
                    @ [Some \<lparr>fInitialState = i', fProcInfo = proc_info,
                             fExclusiveTag = \<lparr>fNProtons = 0, fNNeutrons = 0, fNPiPlus = 0,
                                              fNPi0 = 0, fNPiMinus = 0\<rparr>\<rparr>]\<rparr>)
          \<and> P4_ok (p4s s @ h1) (fTgt i')
          \<and> (\<forall>q. fStruckNucP4 (fTgt i') = Some q \<longrightarrow> length (p4s s) \<le> q)"
proof -
  from InitialState_copy_ok [OF assms, of pdg] obtain i' h1
    where c: "InitialState_copy pdg init_state (p4s s) = Inr (i', p4s s @ h1)"
      and ok: "P4_ok (p4s s @ h1) (fTgt i')"
      and fresh: "\<forall>q. fStruckNucP4 (fTgt i') = Some q \<longrightarrow> length (p4s s) \<le> q"
    by blast
  show ?thesis using c ok fresh
    by (simp add: new_Interaction_def seq_def new_obj_def)
qed

lemma SetStruckNucleonPDGCode_extends:
  assumes "pdg_IsProton c \<or> pdg_IsNeutron c" and "Find pdg c = Some particle" and "P4_ok h t"
      and "\<forall>q. fStruckNucP4 t = Some q \<longrightarrow> n \<le> q" and "n \<le> length h"
  shows "\<exists>t' h'. SetStruckNucleonPDGCode pdg c t h = Inr (t', h')
           \<and> t' = t\<lparr>fStruckNucPDG := c, fStruckNucP4 := fStruckNucP4 t'\<rparr>
           \<and> extends (take n h) h'"
proof -
  from SetStruckNucleonPDGCode_valid [OF assms(1,2,3)] obtain h1
    where r: "SetStruckNucleonPDGCode pdg c t h =
            Inr (t\<lparr>fStruckNucPDG := c, fStruckNucP4 := Some (length h)\<rparr>,
                 h1 @ [Some \<lparr>P4x = 0, P4y = 0, P4z = 0, P4t = Mass particle\<rparr>])"
      and l: "length h1 = length h"
      and k: "\<forall>a. a < length h \<and> Some a \<noteq> fStruckNucP4 t \<longrightarrow> h1 ! a = h ! a"
    by blast
  have "extends (take n h) (h1 @ [Some \<lparr>P4x = 0, P4y = 0, P4z = 0, P4t = Mass particle\<rparr>])"
    unfolding extends_iff
  proof (intro conjI allI impI)
    show "length (take n h) \<le> length (h1 @ [Some \<lparr>P4x = 0, P4y = 0, P4z = 0, P4t = Mass particle\<rparr>])"
      using l by simp
  next
    fix a assume a: "a < length (take n h)"
    then have an: "a < n" and ah: "a < length h" by simp_all
    have "Some a \<noteq> fStruckNucP4 t"
    proof
      assume "Some a = fStruckNucP4 t"
      then have "fStruckNucP4 t = Some a" by simp
      with assms(4) have "n \<le> a" by blast
      with an show False by simp
    qed
    then have "h1 ! a = h ! a" using k ah by simp
    then show "(h1 @ [Some \<lparr>P4x = 0, P4y = 0, P4z = 0, P4t = Mass particle\<rparr>]) ! a = take n h ! a"
      using ah an l by (simp add: nth_append)
  qed
  then show ?thesis using r by simp
qed

section \<open>Properties of the generators\<close>

lemma example_neutron_built:
  "Target_ZA example_pdg 0 1 [] = Inr (example_neutron, example_neutron_heap)"
  by (simp add: Target_ZA_def Init_def SetZA_def Let_def ForceNucleusValidity_def IsValidNucleus_def
        IsFreeNucleon_def IsProton_def
        SetStruckNucleonPDGCode_def ForceStruckNucleonValidity_def pdg_IsProton_def pdg_IsNeutron_def
        kPdgProton_def kPdgNeutron_def SetStruckNucleonP4_def delete_obj_def new_obj_def live_def
        seq_def example_pdg_def example_neutron_def example_neutron_heap_def)

subsection \<open>The local channel arrays\<close>

text \<open>
  An array of \<open>n_nucc_channels\<close> elements takes three assignments at the indices 0, 1, 2;
  a fourth assignment, at index 3, is outside its bounds. An array of \<open>n_nunc_channels\<close>
  elements takes all four.
\<close>

lemma nucc_assign:
  assumes "length a = n_nucc_channels"
  shows "array_assign a [(0, c0), (1, c1), (2, c2)] = Inr [c0, c1, c2]"
proof -
  from assms obtain x y z where a: "a = [x, y, z]"
    by (cases a; cases "tl a"; cases "tl (tl a)") (auto simp: n_nucc_channels_def)
  show ?thesis by (simp add: a array_write_def seq_def)
qed

lemma nunc_assign_out_of_bounds:
  assumes "length a = n_nucc_channels"
  shows "array_assign a [(0, c0), (1, c1), (2, c2), (3, c3)] = Inl OutOfBounds"
proof -
  from assms obtain x y z where a: "a = [x, y, z]"
    by (cases a; cases "tl a"; cases "tl (tl a)") (auto simp: n_nucc_channels_def)
  show ?thesis by (simp add: a array_write_def seq_def)
qed

lemma nunc_assign:
  assumes "length a = n_nunc_channels"
  shows "array_assign a [(0, c0), (1, c1), (2, c2), (3, c3)] = Inr [c0, c1, c2, c3]"
proof -
  from assms obtain w x y z where a: "a = [w, x, y, z]"
    by (cases a; cases "tl a"; cases "tl (tl a)"; cases "tl (tl (tl a))")
       (auto simp: n_nunc_channels_def)
  show ?thesis by (simp add: a array_write_def seq_def)
qed

text \<open>
  \<open>nunc_channels\<close> is declared with \<open>n_nucc_channels\<close> elements, and both branches that
  fill the arrays assign \<open>nunc_channels[3]\<close>. So for a neutrino or an antineutrino probe
  the function does not get past the assignments, whatever the configuration and the
  target; for any other probe it returns null before touching the arrays.
\<close>

lemma RSPP_neutrino_probe:
  assumes "IsNeutrino pdg (fProbePdg init_state) \<or> IsAntiNeutrino pdg (fProbePdg init_state)"
  shows "RSPP_CreateInteractionList pdg this init_state s = Inl OutOfBounds"
proof -
  have l: "length (replicate n_nucc_channels kSppNull) = n_nucc_channels" by simp
  show ?thesis
    using assms
    unfolding RSPP_CreateInteractionList_def RSPP_CreateInteractionList_body_def Let_def
      nucc_assign [OF l] nunc_assign_out_of_bounds [OF l]
    by (auto simp: seq_def)
qed

lemma RSPP_other_probe:
  assumes "\<not> IsNeutrino pdg (fProbePdg init_state)" and "\<not> IsAntiNeutrino pdg (fProbePdg init_state)"
  shows "RSPP_CreateInteractionList pdg this init_state s = Inr (None, s)"
  using assms
  by (simp add: RSPP_CreateInteractionList_def RSPP_CreateInteractionList_body_def Let_def seq_def)

text \<open>
  Claim C3 fails on the code. For a muon neutrino on carbon-12 in CC mode: the three
  assignments to \<open>nunc_channels\<close> at 0, 1, 2 are inside the bounds, the assignment
  \<open>nunc_channels[3] = kSpp_vn_nc_10001\<close> is outside, as is the read \<open>nunc_channels[3]\<close>
  of the NC loop, and the call as a whole ends in the out-of-bounds branch.
\<close>

theorem RSPP_nunc_channels_overrun:
  "array_assign (replicate n_nucc_channels kSppNull)
     [(0, kSpp_vp_nc_10010), (1, kSpp_vp_nc_01100), (2, kSpp_vn_nc_01010)]
     = Inr [kSpp_vp_nc_10010, kSpp_vp_nc_01100, kSpp_vn_nc_01010]
   \<and> array_write [kSpp_vp_nc_10010, kSpp_vp_nc_01100, kSpp_vn_nc_01010] 3 kSpp_vn_nc_10001
     = Inl OutOfBounds
   \<and> array_read [kSpp_vp_nc_10010, kSpp_vp_nc_01100, kSpp_vn_nc_01010] 3 = Inl OutOfBounds
   \<and> RSPP_CreateInteractionList example_pdg \<lparr>fIsCC = True, fIsNC = False\<rparr>
       example_nu_carbon example_store = Inl OutOfBounds"
proof -
  have n: "IsNeutrino example_pdg (fProbePdg example_nu_carbon)"
    by (simp add: example_pdg_def example_nu_carbon_def)
  show ?thesis
    using RSPP_neutrino_probe [of example_pdg example_nu_carbon, OF disjI1 [OF n]]
    by (simp add: n_nucc_channels_def array_write_def array_read_def seq_def eval_nat_numeral)
qed

text \<open>
  Claim C1 fails on the code. For a muon neutrino on carbon-12 (\<open>Z = 6\<close>, \<open>N = 6\<close>) in NC
  mode the claim promises the four channels of the neutrino NC table; the array that is
  to hold them has three elements and the call ends in the out-of-bounds branch.
\<close>

theorem RSPP_neutrino_NC_no_channels:
  "IsNeutrino example_pdg (fProbePdg example_nu_carbon)
   \<and> Target_Z (fTgt example_nu_carbon) > 0 \<and> Target_N (fTgt example_nu_carbon) > 0
   \<and> RSPP_CreateInteractionList example_pdg \<lparr>fIsCC = False, fIsNC = True\<rparr>
       example_nu_carbon example_store = Inl OutOfBounds"
proof -
  have n: "IsNeutrino example_pdg (fProbePdg example_nu_carbon)"
    by (simp add: example_pdg_def example_nu_carbon_def)
  show ?thesis
    using RSPP_neutrino_probe [of example_pdg example_nu_carbon, OF disjI1 [OF n]] n
    by (simp add: example_nu_carbon_def example_carbon_def Target_Z_def Target_N_def)
qed

text \<open>
  Claim C2 fails on the code. For a muon antineutrino on a free neutron in CC mode the
  claim promises a non-null, non-empty list; the call ends in the out-of-bounds branch
  and returns nothing.
\<close>

theorem RSPP_antineutrino_no_list:
  "IsAntiNeutrino example_pdg (fProbePdg example_nubar_neutron)
   \<and> Target_N (fTgt example_nubar_neutron) > 0
   \<and> RSPP_CreateInteractionList example_pdg \<lparr>fIsCC = True, fIsNC = False\<rparr>
       example_nubar_neutron example_neutron_store = Inl OutOfBounds"
proof -
  have n: "IsAntiNeutrino example_pdg (fProbePdg example_nubar_neutron)"
    by (simp add: example_pdg_def example_nubar_neutron_def)
  show ?thesis
    using RSPP_neutrino_probe [of example_pdg example_nubar_neutron, OF disjI2 [OF n]] n
    by (simp add: example_nubar_neutron_def example_neutron_def Target_N_def)
qed

subsection \<open>The body on arrays of the intended sizes\<close>

text \<open>
  The rest of this section is about the body of \<open>CreateInteractionList\<close> run on a
  \<open>nucc_channels\<close> of \<open>n_nucc_channels\<close> elements and a \<open>nunc_channels\<close> of
  \<open>n_nunc_channels\<close> elements, which is not what the source declares. It shows that the
  declaration is the only thing that stands between the code and the enumeration of the
  spec.
\<close>

lemma SetHitNucPdg_new:
  assumes "SetStruckNucleonPDGCode pdg c (fTgt (fInitialState x)) h = Inr (t', h')"
  shows "SetHitNucPdg pdg c (length is) \<lparr>p4s = h, interactions = is @ [Some x]\<rparr>
           = Inr \<lparr>p4s = h',
                  interactions = is @ [Some (x\<lparr>fInitialState := (fInitialState x)\<lparr>fTgt := t'\<rparr>\<rparr>)]\<rparr>"
  using assms by (simp add: SetHitNucPdg_def deref_new seq_def assign_new)

lemma AddFinalStateInfo_new:
  "AddFinalStateInfo (length is) chan \<lparr>p4s = h, interactions = is @ [Some x]\<rparr>
     = Inr \<lparr>p4s = h,
            interactions = is @ [Some (x\<lparr>fExclusiveTag := snd (snd (spec_signature inttype chan))\<rparr>)]\<rparr>"
  by (simp add: AddFinalStateInfo_def SetExclTag_def Let_def deref_new seq_def assign_new
        spec_signature_def kPdgProton_def kPdgNeutron_def kPdgPiPlus_def kPdgPi0_def
        kPdgPiMinus_def)

lemma channel_step_skipped:
  assumes "\<not> ((InitStateNucleon chan = kPdgProton \<and> hasP) \<or> (InitStateNucleon chan = kPdgNeutron \<and> hasN))"
  shows "channel_step pdg inttype init_state hasP hasN chan (intlist, s) = Inr (intlist, s)"
  unfolding channel_step_def Let_def by (simp only: prod.case if_not_P [OF assms])

lemma channel_step_admitted:
  assumes adm: "(InitStateNucleon chan = kPdgProton \<and> hasP) \<or> (InitStateNucleon chan = kPdgNeutron \<and> hasN)"
      and ok: "P4_ok (p4s s) (fTgt init_state)"
      and pp: "Find pdg kPdgProton = Some pp"
      and pn: "Find pdg kPdgNeutron = Some pn"
  shows "\<exists>h' x'. channel_step pdg inttype init_state hasP hasN chan (intlist, s) =
            Inr (intlist @ [length (interactions s)],
                 \<lparr>p4s = h', interactions = interactions s @ [Some x']\<rparr>)
          \<and> extends (p4s s) h'
          \<and> channel_signature x' = spec_signature inttype chan"
proof -
  let ?c = "InitStateNucleon chan"
  let ?proc = "\<lparr>fScatteringType = kScResonant, fInteractionType = inttype\<rparr>"
  let ?tag0 = "\<lparr>fNProtons = 0, fNNeutrons = 0, fNPiPlus = 0, fNPi0 = 0, fNPiMinus = 0\<rparr>"
  from adm have valid: "pdg_IsProton ?c \<or> pdg_IsNeutron ?c"
    by (auto simp: pdg_IsProton_def pdg_IsNeutron_def)
  from adm pp pn obtain particle where f: "Find pdg ?c = Some particle" by auto
  from new_Interaction_ok [OF ok, of pdg ?proc] obtain i' h1
    where n: "new_Interaction pdg init_state ?proc s =
            Inr (length (interactions s),
                 \<lparr>p4s = p4s s @ h1,
                  interactions = interactions s
                    @ [Some \<lparr>fInitialState = i', fProcInfo = ?proc, fExclusiveTag = ?tag0\<rparr>]\<rparr>)"
      and ok1: "P4_ok (p4s s @ h1) (fTgt i')"
      and fresh: "\<forall>q. fStruckNucP4 (fTgt i') = Some q \<longrightarrow> length (p4s s) \<le> q"
    by blast
  let ?x0 = "\<lparr>fInitialState = i', fProcInfo = ?proc, fExclusiveTag = ?tag0\<rparr>"
  have le: "length (p4s s) \<le> length (p4s s @ h1)" by simp
  from SetStruckNucleonPDGCode_extends [OF valid f ok1 fresh le] obtain t' h'
    where set: "SetStruckNucleonPDGCode pdg ?c (fTgt i') (p4s s @ h1) = Inr (t', h')"
      and t': "t' = (fTgt i')\<lparr>fStruckNucPDG := ?c, fStruckNucP4 := fStruckNucP4 t'\<rparr>"
      and ext: "extends (take (length (p4s s)) (p4s s @ h1)) h'"
    by blast
  have set0: "SetStruckNucleonPDGCode pdg ?c (fTgt (fInitialState ?x0)) (p4s s @ h1) = Inr (t', h')"
    using set by simp
  let ?x1 = "?x0\<lparr>fInitialState := (fInitialState ?x0)\<lparr>fTgt := t'\<rparr>\<rparr>"
  let ?x2 = "?x1\<lparr>fExclusiveTag := snd (snd (spec_signature inttype chan))\<rparr>"
  have hit: "SetHitNucPdg pdg ?c (length (interactions s))
               \<lparr>p4s = p4s s @ h1, interactions = interactions s @ [Some ?x0]\<rparr>
             = Inr \<lparr>p4s = h', interactions = interactions s @ [Some ?x1]\<rparr>"
    by (rule SetHitNucPdg_new [OF set0])
  have fin: "AddFinalStateInfo (length (interactions s)) chan
               \<lparr>p4s = h', interactions = interactions s @ [Some ?x1]\<rparr>
             = Inr \<lparr>p4s = h', interactions = interactions s @ [Some ?x2]\<rparr>"
    by (rule AddFinalStateInfo_new)
  have step: "channel_step pdg inttype init_state hasP hasN chan (intlist, s) =
            Inr (intlist @ [length (interactions s)],
                 \<lparr>p4s = h', interactions = interactions s @ [Some ?x2]\<rparr>)"
    using adm unfolding channel_step_def Let_def
    by (simp only: prod.case if_True n seq_def sum.case hit fin)
  have code: "fStruckNucPDG t' = ?c"
    using arg_cong [OF t', of fStruckNucPDG] by simp
  have sig: "channel_signature ?x2 = spec_signature inttype chan"
    using code by (simp add: channel_signature_def spec_signature_def StruckNucleonPDGCode_def)
  have ext': "extends (p4s s) h'" using ext by simp
  show ?thesis using step ext' sig by blast
qed

text \<open>
  The loop appends one Interaction per admitted channel, in the order of the array, and
  each has the signature of its channel. Induction on the indices still to visit, with
  the list and the store generalised.
\<close>

lemma channel_loop_enumerates:
  assumes "P4_ok (p4s s) (fTgt init_state)"
      and "Find pdg kPdgProton = Some pp"
      and "Find pdg kPdgNeutron = Some pn"
      and "\<forall>i \<in> set idxs. i < length channels"
  shows "\<exists>new s'. channel_loop pdg inttype init_state hasP hasN channels idxs (intlist, s)
                     = Inr (intlist @ new, s')
           \<and> extends (p4s s) (p4s s')
           \<and> extends (interactions s) (interactions s')
           \<and> (\<forall>a \<in> set new. a < length (interactions s'))
           \<and> map (\<lambda>a. map_option channel_signature (obj_at (interactions s') a)) new
               = map (\<lambda>chan. Some (spec_signature inttype chan))
                   (filter (\<lambda>chan. (InitStateNucleon chan = kPdgProton \<and> hasP)
                                    \<or> (InitStateNucleon chan = kPdgNeutron \<and> hasN))
                      (map (\<lambda>i. channels ! i) idxs))"
  using assms(1,4)
proof (induction idxs arbitrary: intlist s)
  case Nil
  show ?case
    by (intro exI [of _ "[]"] exI [of _ s]) (simp add: extends_refl)
next
  case (Cons i idxs)
  let ?chan = "channels ! i"
  let ?adm = "\<lambda>chan. (InitStateNucleon chan = kPdgProton \<and> hasP)
                       \<or> (InitStateNucleon chan = kPdgNeutron \<and> hasN)"
  have rd: "array_read channels i = Inr ?chan"
    using Cons.prems(2) by (simp add: array_read_def)
  have idx: "\<forall>i \<in> set idxs. i < length channels" using Cons.prems(2) by simp
  show ?case
  proof (cases "?adm ?chan")
    case False
    have st: "channel_step pdg inttype init_state hasP hasN ?chan (intlist, s) = Inr (intlist, s)"
      by (rule channel_step_skipped [OF False])
    from Cons.IH [OF Cons.prems(1) idx, of intlist] obtain new s'
      where l: "channel_loop pdg inttype init_state hasP hasN channels idxs (intlist, s)
                     = Inr (intlist @ new, s')"
        and rest: "extends (p4s s) (p4s s')" "extends (interactions s) (interactions s')"
             "\<forall>a \<in> set new. a < length (interactions s')"
             "map (\<lambda>a. map_option channel_signature (obj_at (interactions s') a)) new
               = map (\<lambda>chan. Some (spec_signature inttype chan))
                   (filter ?adm (map (\<lambda>i. channels ! i) idxs))"
      by blast
    have "channel_loop pdg inttype init_state hasP hasN channels (i # idxs) (intlist, s)
            = Inr (intlist @ new, s')"
      by (simp add: rd st l seq_def)
    then show ?thesis using rest False
      by (intro exI [of _ new] exI [of _ s']) simp
  next
    case True
    from channel_step_admitted [OF True Cons.prems(1) assms(2,3), of inttype intlist]
    obtain h' x' where
        st: "channel_step pdg inttype init_state hasP hasN ?chan (intlist, s) =
            Inr (intlist @ [length (interactions s)],
                 \<lparr>p4s = h', interactions = interactions s @ [Some x']\<rparr>)"
      and ext: "extends (p4s s) h'"
      and sig: "channel_signature x' = spec_signature inttype ?chan"
      by blast
    let ?s1 = "\<lparr>p4s = h', interactions = interactions s @ [Some x']\<rparr>"
    let ?a0 = "length (interactions s)"
    have ok1: "P4_ok (p4s ?s1) (fTgt init_state)"
      using extends_P4_ok [OF ext Cons.prems(1)] by simp
    from Cons.IH [OF ok1 idx, of "intlist @ [?a0]"] obtain new s'
      where l: "channel_loop pdg inttype init_state hasP hasN channels idxs (intlist @ [?a0], ?s1)
                     = Inr ((intlist @ [?a0]) @ new, s')"
        and e1: "extends (p4s ?s1) (p4s s')"
        and e2: "extends (interactions ?s1) (interactions s')"
        and lt: "\<forall>a \<in> set new. a < length (interactions s')"
        and m: "map (\<lambda>a. map_option channel_signature (obj_at (interactions s') a)) new
               = map (\<lambda>chan. Some (spec_signature inttype chan))
                   (filter ?adm (map (\<lambda>i. channels ! i) idxs))"
      by blast
    have loop: "channel_loop pdg inttype init_state hasP hasN channels (i # idxs) (intlist, s)
            = Inr (intlist @ (?a0 # new), s')"
      by (simp add: rd st l seq_def)
    have p: "extends (p4s s) (p4s s')"
      using extends_trans [OF ext] e1 by simp
    have q0: "extends (interactions s) (interactions ?s1)"
      by (simp add: extends_append)
    have q: "extends (interactions s) (interactions s')"
      by (rule extends_trans [OF q0 e2])
    have a0: "?a0 < length (interactions ?s1)" by simp
    have a0': "?a0 < length (interactions s')"
      using e2 by (simp add: extends_iff)
    have at: "obj_at (interactions s') ?a0 = Some x'"
      using extends_obj_at [OF e2 a0] by (simp add: obj_at_def)
    show ?thesis
      using loop p q lt a0' at sig m True
      by (intro exI [of _ "?a0 # new"] exI [of _ s']) simp
  qed
qed

lemma RSPP_loops:
  assumes "P4_ok (p4s s) (fTgt init_state)"
      and "Find pdg kPdgProton = Some pp"
      and "Find pdg kPdgNeutron = Some pn"
      and "length cc = n_nucc_channels" and "length nc = n_nunc_channels"
  shows "\<exists>intlist s'.
           seq (if fIsCC this
                then channel_loop pdg kIntWeakCC init_state hasP hasN cc [0..<n_nucc_channels] ([], s)
                else if fIsNC this
                then channel_loop pdg kIntWeakNC init_state hasP hasN nc [0..<n_nunc_channels] ([], s)
                else Inr ([], s))
             (\<lambda>(intlist, s'). if length intlist = 0 then Inr (None, s') else Inr (Some intlist, s'))
           = Inr (if intlist = [] then None else Some intlist, s')
         \<and> map (\<lambda>a. map_option channel_signature (obj_at (interactions s') a)) intlist
             = map (\<lambda>chan. Some (spec_signature (configured_mode this) chan))
                 (filter (\<lambda>chan. (InitStateNucleon chan = kPdgProton \<and> hasP)
                                  \<or> (InitStateNucleon chan = kPdgNeutron \<and> hasN))
                    (case configured_mode this of
                       kIntWeakCC \<Rightarrow> cc | kIntWeakNC \<Rightarrow> nc | kIntNull \<Rightarrow> []))"
proof (cases "fIsCC this")
  case True
  have idx: "\<forall>i \<in> set [0..<n_nucc_channels]. i < length cc" using assms(4) by simp
  have m: "map (\<lambda>i. cc ! i) [0..<n_nucc_channels] = cc"
    unfolding assms(4) [symmetric] by (rule map_nth)
  from channel_loop_enumerates [OF assms(1,2,3) idx, of kIntWeakCC hasP hasN "[]"]
  obtain new s' where
      l: "channel_loop pdg kIntWeakCC init_state hasP hasN cc [0..<n_nucc_channels] ([], s)
            = Inr (new, s')"
    and sg: "map (\<lambda>a. map_option channel_signature (obj_at (interactions s') a)) new
               = map (\<lambda>chan. Some (spec_signature kIntWeakCC chan))
                   (filter (\<lambda>chan. (InitStateNucleon chan = kPdgProton \<and> hasP)
                                    \<or> (InitStateNucleon chan = kPdgNeutron \<and> hasN))
                      (map (\<lambda>i. cc ! i) [0..<n_nucc_channels]))"
    by auto
  show ?thesis
    using True l sg
    by (intro exI [of _ new] exI [of _ s']) (simp add: seq_def configured_mode_def m)
next
  case False
  show ?thesis
  proof (cases "fIsNC this")
    case True
    have idx: "\<forall>i \<in> set [0..<n_nunc_channels]. i < length nc" using assms(5) by simp
    have m: "map (\<lambda>i. nc ! i) [0..<n_nunc_channels] = nc"
      unfolding assms(5) [symmetric] by (rule map_nth)
    from channel_loop_enumerates [OF assms(1,2,3) idx, of kIntWeakNC hasP hasN "[]"]
    obtain new s' where
        l: "channel_loop pdg kIntWeakNC init_state hasP hasN nc [0..<n_nunc_channels] ([], s)
              = Inr (new, s')"
      and sg: "map (\<lambda>a. map_option channel_signature (obj_at (interactions s') a)) new
                 = map (\<lambda>chan. Some (spec_signature kIntWeakNC chan))
                     (filter (\<lambda>chan. (InitStateNucleon chan = kPdgProton \<and> hasP)
                                      \<or> (InitStateNucleon chan = kPdgNeutron \<and> hasN))
                        (map (\<lambda>i. nc ! i) [0..<n_nunc_channels]))"
      by auto
    show ?thesis
      using False True l sg
      by (intro exI [of _ new] exI [of _ s']) (simp add: seq_def configured_mode_def m)
  next
    case nc: False
    show ?thesis
      using False nc
      by (intro exI [of _ "[]"] exI [of _ s]) (simp add: seq_def configured_mode_def)
  qed
qed

text \<open>
  With arrays of the intended sizes, a neutrino or antineutrino probe, a Target whose
  four-vector pointer is null or live and a table that knows both nucleons, the body
  returns the admitted channels of the table for the probe sign and the configured
  current type, in table order, or null when there are none.
\<close>

lemma RSPP_body_enumerates:
  assumes "length nucc_channels = n_nucc_channels"
      and "length nunc_channels = n_nunc_channels"
      and "IsNeutrino pdg (fProbePdg init_state) \<or> IsAntiNeutrino pdg (fProbePdg init_state)"
      and "P4_ok (p4s s) (fTgt init_state)"
      and "Find pdg kPdgProton = Some pp"
      and "Find pdg kPdgNeutron = Some pn"
  shows "\<exists>intlist s'.
           RSPP_CreateInteractionList_body pdg this init_state nucc_channels nunc_channels s
             = Inr (if intlist = [] then None else Some intlist, s')
         \<and> map (\<lambda>a. map_option channel_signature (obj_at (interactions s') a)) intlist
             = map (\<lambda>chan. Some (spec_signature (configured_mode this) chan))
                 (filter (spec_admitted (fTgt init_state))
                    (spec_channel_table (IsNeutrino pdg (fProbePdg init_state))
                       (configured_mode this)))"
proof (cases "IsNeutrino pdg (fProbePdg init_state)")
  case True
  let ?cc = "[kSpp_vp_cc_10100, kSpp_vn_cc_10010, kSpp_vn_cc_01100]"
  let ?nc = "[kSpp_vp_nc_10010, kSpp_vp_nc_01100, kSpp_vn_nc_01010, kSpp_vn_nc_10001]"
  have lc: "length ?cc = n_nucc_channels" by (simp add: n_nucc_channels_def)
  have ln: "length ?nc = n_nunc_channels" by (simp add: n_nunc_channels_def)
  have tab: "(case configured_mode this of kIntWeakCC \<Rightarrow> ?cc | kIntWeakNC \<Rightarrow> ?nc | kIntNull \<Rightarrow> [])
             = spec_channel_table True (configured_mode this)"
    by (simp add: spec_channel_table_def split: InteractionType_t.splits)
  from RSPP_loops [OF assms(4,5,6) lc ln, of this "Target_Z (fTgt init_state) > 0"
                     "Target_N (fTgt init_state) > 0"]
  show ?thesis
    unfolding RSPP_CreateInteractionList_body_def Let_def
      nucc_assign [OF assms(1)] nunc_assign [OF assms(2)] tab
    using True
    by (simp add: seq_def spec_admitted_def [abs_def])
next
  case False
  then have anti: "IsAntiNeutrino pdg (fProbePdg init_state)" using assms(3) by simp
  let ?cc = "[kSpp_vbn_cc_01001, kSpp_vbp_cc_01010, kSpp_vbp_cc_10001]"
  let ?nc = "[kSpp_vbp_nc_10010, kSpp_vbp_nc_01100, kSpp_vbn_nc_01010, kSpp_vbn_nc_10001]"
  have lc: "length ?cc = n_nucc_channels" by (simp add: n_nucc_channels_def)
  have ln: "length ?nc = n_nunc_channels" by (simp add: n_nunc_channels_def)
  have tab: "(case configured_mode this of kIntWeakCC \<Rightarrow> ?cc | kIntWeakNC \<Rightarrow> ?nc | kIntNull \<Rightarrow> [])
             = spec_channel_table False (configured_mode this)"
    by (simp add: spec_channel_table_def split: InteractionType_t.splits)
  from RSPP_loops [OF assms(4,5,6) lc ln, of this "Target_Z (fTgt init_state) > 0"
                     "Target_N (fTgt init_state) > 0"]
  show ?thesis
    unfolding RSPP_CreateInteractionList_body_def Let_def
      nucc_assign [OF assms(1)] nunc_assign [OF assms(2)] tab
    using False anti
    by (simp add: seq_def spec_admitted_def [abs_def])
qed

lemma spec_channels_empty_iff:
  "filter (spec_admitted tgt) (spec_channel_table neutrino inttype) = []
     \<longleftrightarrow> inttype = kIntNull \<or> (Target_Z tgt \<le> 0 \<and> Target_N tgt \<le> 0)"
  by (cases inttype; cases neutrino)
     (auto simp: spec_channel_table_def spec_admitted_def kPdgProton_def kPdgNeutron_def)

lemma spec_channels_neutrino_CC:
  "filter (spec_admitted tgt) (spec_channel_table True kIntWeakCC)
     = (if Target_Z tgt > 0 then [kSpp_vp_cc_10100] else [])
       @ (if Target_N tgt > 0 then [kSpp_vn_cc_10010, kSpp_vn_cc_01100] else [])"
  by (simp add: spec_channel_table_def spec_admitted_def kPdgProton_def kPdgNeutron_def)

lemma spec_signatures_distinct:
  "distinct (map (spec_signature inttype) (spec_channel_table neutrino inttype))"
  by (cases inttype; cases neutrino)
     (simp_all add: spec_channel_table_def spec_signature_def kPdgProton_def kPdgNeutron_def
        kPdgPiPlus_def kPdgPi0_def kPdgPiMinus_def)

lemma RSPP_body_null_iff:
  assumes "length nucc_channels = n_nucc_channels"
      and "length nunc_channels = n_nunc_channels"
      and "IsNeutrino pdg (fProbePdg init_state) \<or> IsAntiNeutrino pdg (fProbePdg init_state)"
      and "P4_ok (p4s s) (fTgt init_state)"
      and "Find pdg kPdgProton = Some pp"
      and "Find pdg kPdgNeutron = Some pn"
  shows "\<exists>r s'.
           RSPP_CreateInteractionList_body pdg this init_state nucc_channels nunc_channels s
             = Inr (r, s')
         \<and> (r = None \<longleftrightarrow>
              (\<not> fIsCC this \<and> \<not> fIsNC this)
              \<or> (Target_Z (fTgt init_state) \<le> 0 \<and> Target_N (fTgt init_state) \<le> 0))
         \<and> r \<noteq> Some []"
proof -
  from RSPP_body_enumerates [OF assms, of this] obtain intlist s' where
      b: "RSPP_CreateInteractionList_body pdg this init_state nucc_channels nunc_channels s
             = Inr (if intlist = [] then None else Some intlist, s')"
    and m: "map (\<lambda>a. map_option channel_signature (obj_at (interactions s') a)) intlist
             = map (\<lambda>chan. Some (spec_signature (configured_mode this) chan))
                 (filter (spec_admitted (fTgt init_state))
                    (spec_channel_table (IsNeutrino pdg (fProbePdg init_state))
                       (configured_mode this)))"
    by blast
  have "intlist = [] \<longleftrightarrow>
          filter (spec_admitted (fTgt init_state))
            (spec_channel_table (IsNeutrino pdg (fProbePdg init_state)) (configured_mode this)) = []"
    using arg_cong [OF m, of length] by (metis length_map length_0_conv)
  also have "\<dots> \<longleftrightarrow> configured_mode this = kIntNull
                \<or> (Target_Z (fTgt init_state) \<le> 0 \<and> Target_N (fTgt init_state) \<le> 0)"
    by (rule spec_channels_empty_iff)
  also have "configured_mode this = kIntNull \<longleftrightarrow> \<not> fIsCC this \<and> \<not> fIsNC this"
    by (simp add: configured_mode_def)
  finally have e: "intlist = [] \<longleftrightarrow>
      (\<not> fIsCC this \<and> \<not> fIsNC this)
      \<or> (Target_Z (fTgt init_state) \<le> 0 \<and> Target_N (fTgt init_state) \<le> 0)" .
  show ?thesis
    using b e
    by (intro exI [of _ "if intlist = [] then None else Some intlist"] exI [of _ s']) simp
qed

lemma RSPP_body_neutrino_CC:
  assumes "length nucc_channels = n_nucc_channels"
      and "length nunc_channels = n_nunc_channels"
      and "IsNeutrino pdg (fProbePdg init_state)"
      and "fIsCC this"
      and "P4_ok (p4s s) (fTgt init_state)"
      and "Find pdg kPdgProton = Some pp"
      and "Find pdg kPdgNeutron = Some pn"
      and "Target_Z (fTgt init_state) > 0"
  shows "\<exists>intlist s'.
           RSPP_CreateInteractionList_body pdg this init_state nucc_channels nunc_channels s
             = Inr (Some intlist, s')
         \<and> length intlist = (if Target_N (fTgt init_state) > 0 then 3 else 1)
         \<and> map (\<lambda>a. map_option channel_signature (obj_at (interactions s') a)) intlist
             = map (\<lambda>chan. Some (spec_signature kIntWeakCC chan))
                 (if Target_N (fTgt init_state) > 0
                  then [kSpp_vp_cc_10100, kSpp_vn_cc_10010, kSpp_vn_cc_01100]
                  else [kSpp_vp_cc_10100])"
proof -
  have mode: "configured_mode this = kIntWeakCC" using assms(4) by (simp add: configured_mode_def)
  from RSPP_body_enumerates [OF assms(1,2) disjI1 [OF assms(3)] assms(5,6,7), of this]
  obtain intlist s' where
      b: "RSPP_CreateInteractionList_body pdg this init_state nucc_channels nunc_channels s
             = Inr (if intlist = [] then None else Some intlist, s')"
    and m: "map (\<lambda>a. map_option channel_signature (obj_at (interactions s') a)) intlist
             = map (\<lambda>chan. Some (spec_signature kIntWeakCC chan))
                 (filter (spec_admitted (fTgt init_state)) (spec_channel_table True kIntWeakCC))"
    using assms(3) mode by auto
  have f: "filter (spec_admitted (fTgt init_state)) (spec_channel_table True kIntWeakCC)
           = (if Target_N (fTgt init_state) > 0
                  then [kSpp_vp_cc_10100, kSpp_vn_cc_10010, kSpp_vn_cc_01100]
                  else [kSpp_vp_cc_10100])"
    using assms(8) by (simp add: spec_channels_neutrino_CC)
  have len: "length intlist = (if Target_N (fTgt init_state) > 0 then 3 else 1)"
    using arg_cong [OF m, of length] by (simp add: f)
  then have ne: "intlist \<noteq> []" by (auto split: if_splits)
  show ?thesis
    using b m len ne unfolding f
    by (intro exI [of _ intlist] exI [of _ s']) simp
qed

text \<open>
  A run on arrays of the intended sizes: a muon neutrino on carbon-12 in CC mode yields
  three Interactions, with the signatures of the three channels of the neutrino CC table.
\<close>

lemma RSPP_body_example:
  "\<exists>s'. RSPP_CreateInteractionList_body example_pdg \<lparr>fIsCC = True, fIsNC = False\<rparr>
          example_nu_carbon (replicate n_nucc_channels kSppNull)
          (replicate n_nunc_channels kSppNull) example_store = Inr (Some [0, 1, 2], s')
        \<and> map (\<lambda>a. map_option channel_signature (obj_at (interactions s') a)) [0, 1, 2]
            = [Some (spec_signature kIntWeakCC kSpp_vp_cc_10100),
               Some (spec_signature kIntWeakCC kSpp_vn_cc_10010),
               Some (spec_signature kIntWeakCC kSpp_vn_cc_01100)]"
  by (simp add: RSPP_CreateInteractionList_body_def Let_def n_nucc_channels_def
        n_nunc_channels_def eval_nat_numeral array_write_def array_read_def seq_def
        example_pdg_def example_nu_carbon_def example_carbon_def example_store_def
        example_heap_def Target_Z_def Target_N_def upt_rec channel_step_def
        kPdgProton_def kPdgNeutron_def kPdgPiPlus_def kPdgPi0_def kPdgPiMinus_def
        new_Interaction_def InitialState_copy_def Target_copy_def Copy_def Init_def
        ForceNucleusValidity_def IsValidNucleus_def IsFreeNucleon_def deref_def new_obj_def
        SetHitNucPdg_def SetStruckNucleonPDGCode_def ForceStruckNucleonValidity_def
        pdg_IsProton_def pdg_IsNeutron_def SetStruckNucleonP4_def delete_obj_def live_def
        assign_obj_def AddFinalStateInfo_def SetExclTag_def
        channel_signature_def spec_signature_def obj_at_def StruckNucleonPDGCode_def
        nth_append)

subsection \<open>The diffractive generator\<close>

text \<open>
  Claim C9. For every InitialState, \<open>DfrcInteractionListGenerator::CreateInteractionList\<close>
  returns a non-null pointer to an empty InteractionList, never null, and leaves the
  store as it was.
\<close>

theorem Dfrc_returns_empty_list:
  "Dfrc_CreateInteractionList init_state s = Inr (Some [], s)"
  by (simp add: Dfrc_CreateInteractionList_def)

section \<open>Properties of the selector\<close>

lemma new_Interaction_copy_ok:
  assumes "deref (interactions s) a = Inr x" and "P4_ok (p4s s) (fTgt (fInitialState x))"
  shows "\<exists>i' h1. InitialState_copy pdg (fInitialState x) (p4s s) = Inr (i', p4s s @ h1)
           \<and> new_Interaction_copy pdg a s =
               Inr (length (interactions s),
                    \<lparr>p4s = p4s s @ h1,
                     interactions = interactions s @ [Some (x\<lparr>fInitialState := i'\<rparr>)]\<rparr>)"
proof -
  from InitialState_copy_ok [OF assms(2), of pdg] obtain i' h1
    where c: "InitialState_copy pdg (fInitialState x) (p4s s) = Inr (i', p4s s @ h1)" by blast
  then show ?thesis using assms(1)
    by (simp add: new_Interaction_copy_def seq_def new_obj_def)
qed

lemma SetProbeP4_new:
  "SetProbeP4 p4 (length is) \<lparr>p4s = h, interactions = is @ [Some x]\<rparr>
     = Inr \<lparr>p4s = h, interactions = is @ [Some (x\<lparr>fInitialState := (fInitialState x)\<lparr>fProbeP4 := p4\<rparr>\<rparr>)]\<rparr>"
  by (simp add: SetProbeP4_def deref_new seq_def assign_new)

lemma SelectInteraction_result:
  assumes "GetInteractionList m \<noteq> []"
      and "Integer (length (GetInteractionList m)) < length (GetInteractionList m)"
      and "deref (interactions s) (GetInteractionList m ! Integer (length (GetInteractionList m))) = Inr x"
      and "P4_ok (p4s s) (fTgt (fInitialState x))"
  shows "\<exists>i' h1. InitialState_copy pdg (fInitialState x) (p4s s) = Inr (i', p4s s @ h1)
           \<and> SelectInteraction pdg Integer (Some m) p4 s =
               Inr (Some \<lparr>fSummary = Some (length (interactions s))\<rparr>,
                    \<lparr>p4s = p4s s @ h1,
                     interactions = interactions s
                        @ [Some (x\<lparr>fInitialState := i'\<lparr>fProbeP4 := p4\<rparr>\<rparr>)]\<rparr>)"
proof -
  let ?ilst = "GetInteractionList m"
  let ?k = "Integer (length ?ilst)"
  from new_Interaction_copy_ok [OF assms(3,4), of pdg] obtain i' h1
    where c: "InitialState_copy pdg (fInitialState x) (p4s s) = Inr (i', p4s s @ h1)"
      and n: "new_Interaction_copy pdg (?ilst ! ?k) s =
               Inr (length (interactions s),
                    \<lparr>p4s = p4s s @ h1,
                     interactions = interactions s @ [Some (x\<lparr>fInitialState := i'\<rparr>)]\<rparr>)"
    by blast
  have sz: "\<not> igmap_size m \<le> 0"
    using assms(1) by (simp add: igmap_size_def GetInteractionList_def)
  have r: "array_read ?ilst ?k = Inr (?ilst ! ?k)"
    using assms(2) by (simp add: array_read_def)
  have "SelectInteraction pdg Integer (Some m) p4 s =
               Inr (Some \<lparr>fSummary = Some (length (interactions s))\<rparr>,
                    \<lparr>p4s = p4s s @ h1,
                     interactions = interactions s
                        @ [Some (x\<lparr>fInitialState := i'\<lparr>fProbeP4 := p4\<rparr>\<rparr>)]\<rparr>)"
    unfolding SelectInteraction_def Let_def
    using sz r n
    by (simp add: seq_def SetProbeP4_new new_EventRecord_def AttachSummary_def)
  with c show ?thesis by blast
qed

text \<open>
  Claim C4. For every probe four-momentum, \<open>SelectInteraction\<close> returns null, and
  leaves the store as it was, when the handle is null or the interaction list has no
  elements. Otherwise it returns a non-null EventRecord, given that the random-number
  service keeps its contract (the drawn index is below the length of the list) and the
  drawn element is a usable pointer.
\<close>

theorem SelectInteraction_null_or_record:
  "SelectInteraction pdg Integer None p4 s = Inr (None, s)
   \<and> (GetInteractionList m = [] \<longrightarrow> SelectInteraction pdg Integer (Some m) p4 s = Inr (None, s))
   \<and> (GetInteractionList m \<noteq> []
        \<and> Integer (length (GetInteractionList m)) < length (GetInteractionList m)
        \<and> Interaction_ok s (GetInteractionList m ! Integer (length (GetInteractionList m)))
      \<longrightarrow> (\<exists>evrec s'. SelectInteraction pdg Integer (Some m) p4 s = Inr (Some evrec, s')))"
proof (intro conjI impI)
  show "SelectInteraction pdg Integer None p4 s = Inr (None, s)"
    by (simp add: SelectInteraction_def)
next
  assume "GetInteractionList m = []"
  then show "SelectInteraction pdg Integer (Some m) p4 s = Inr (None, s)"
    by (simp add: SelectInteraction_def igmap_size_def GetInteractionList_def)
next
  let ?a = "GetInteractionList m ! Integer (length (GetInteractionList m))"
  assume h: "GetInteractionList m \<noteq> []
        \<and> Integer (length (GetInteractionList m)) < length (GetInteractionList m)
        \<and> Interaction_ok s ?a"
  then obtain x where x: "deref (interactions s) ?a = Inr x"
    and ok: "P4_ok (p4s s) (fTgt (fInitialState x))"
    by (auto simp: Interaction_ok_def split: sum.splits)
  from SelectInteraction_result [where pdg = pdg and Integer = Integer and m = m and s = s and x = x
         and ?p4.0 = p4] h x ok
  show "\<exists>evrec s'. SelectInteraction pdg Integer (Some m) p4 s = Inr (Some evrec, s')"
    by blast
qed

text \<open>The three cases on a list with one element.\<close>

theorem SelectInteraction_null_or_record_witness:
  "SelectInteraction example_pdg (\<lambda>n. 0) None example_p4 example_selection_store
     = Inr (None, example_selection_store)
   \<and> SelectInteraction example_pdg (\<lambda>n. 0) (Some \<lparr>fInteractionList = []\<rparr>) example_p4 example_selection_store
     = Inr (None, example_selection_store)
   \<and> (\<exists>evrec s'. SelectInteraction example_pdg (\<lambda>n. 0) (Some example_igmap) example_p4
                    example_selection_store = Inr (Some evrec, s'))"
proof -
  have ok: "Interaction_ok example_selection_store 0"
    by (simp add: Interaction_ok_def example_selection_store_def deref_def P4_ok_def
          example_interaction_def example_nu_carbon_def example_carbon_def example_heap_def
          live_def)
  have e: "GetInteractionList \<lparr>fInteractionList = []\<rparr> = []"
    by (simp add: GetInteractionList_def)
  have g: "GetInteractionList example_igmap = [0]"
    by (simp add: GetInteractionList_def example_igmap_def)
  show ?thesis
    using SelectInteraction_null_or_record [of example_pdg "\<lambda>n. 0" example_p4 example_selection_store
            "\<lparr>fInteractionList = []\<rparr>"]
          SelectInteraction_null_or_record [of example_pdg "\<lambda>n. 0" example_p4 example_selection_store
            example_igmap]
          ok e g
    by simp
qed




end
